theory Spec2Isabelle
  imports Main "HOL-Library.Sublist"
begin

section \<open>Asset packages: the layer writer and the multi-source fetcher\<close>

text \<open>
  A shallow embedding of \<^verbatim>\<open>internal/asset/writer.go\<close> (the \<^verbatim>\<open>AssetWriter\<close>, the two
  URI fetchers that share that file) and of \<^verbatim>\<open>internal/asset/fetcher.go\<close>
  (\<^verbatim>\<open>Fetcher.FetchAssets\<close>).

  Byte sequences and Go strings are \<^typ>\<open>string\<close>: a list of 8-bit characters.
  Every collaborator that the Go code reaches through an interface (the blob, the tar
  writer, the writable target, the operating system, the sub-fetchers) is a value that
  answers each call; the calls made on it are logged, so that "is never invoked" and
  "exactly once" are statements about the log.
\<close>

subsection \<open>Errors\<close>

text \<open>
  A Go \<^verbatim>\<open>error\<close>. \<open>External\<close> is an error handed in by a collaborator (its
  message); \<open>New\<close> is \<^verbatim>\<open>errors.New\<close>; \<open>Errorf\<close> is \<^verbatim>\<open>fmt.Errorf\<close> with the
  message already formatted; \<open>Wrapf e m\<close> is \<^verbatim>\<open>errors.Wrap(f)(e, m)\<close>.
\<close>

datatype error =
    External string
  | New string
  | Errorf string
  | Wrapf error string

text \<open>\<^verbatim>\<open>err.Error()\<close>: a wrapped error prints as \<^verbatim>\<open>message: cause\<close>.\<close>

fun Error :: "error \<Rightarrow> string" where
  "Error (External s) = s"
| "Error (New s) = s"
| "Error (Errorf s) = s"
| "Error (Wrapf e m) = m @ '': '' @ Error e"

text \<open>\<^verbatim>\<open>strings.Contains(s, sub)\<close>.\<close>

fun strings_Contains :: "string \<Rightarrow> string \<Rightarrow> bool" where
  "strings_Contains [] sub = (sub = [])"
| "strings_Contains (c # s) sub = (prefix sub (c # s) \<or> strings_Contains s sub)"

subsection \<open>Package path: \<^verbatim>\<open>Clean\<close> and \<^verbatim>\<open>Join\<close>\<close>

text \<open>The elements of a path between slashes (\<^verbatim>\<open>strings.Split(p, "/")\<close>).\<close>

fun split_slash :: "string \<Rightarrow> string list" where
  "split_slash [] = [[]]"
| "split_slash (c # s) =
     (if c = CHR ''/'' then [] # split_slash s
      else (case split_slash s of
              [] \<Rightarrow> [[c]]
            | e # es \<Rightarrow> (c # e) # es))"

fun join_slash :: "string list \<Rightarrow> string" where
  "join_slash [] = []"
| "join_slash [e] = e"
| "join_slash (e # es) = e @ ''/'' @ join_slash es"

text \<open>
  \<^verbatim>\<open>path.Clean\<close>, element by element: empty elements and \<^verbatim>\<open>.\<close> are dropped; \<^verbatim>\<open>..\<close>
  removes the element before it, is dropped at the root of a rooted path and is kept at
  the start of a relative one. \<open>out\<close> holds the elements kept so far, last first.
\<close>

fun clean_elems :: "bool \<Rightarrow> string list \<Rightarrow> string list \<Rightarrow> string list" where
  "clean_elems rooted out [] = rev out"
| "clean_elems rooted out (e # es) =
     (if e = [] \<or> e = ''.'' then clean_elems rooted out es
      else if e = ''..'' then
        (case out of
           [] \<Rightarrow> if rooted then clean_elems rooted out es
                 else clean_elems rooted [e] es
         | t # ts \<Rightarrow> if t = ''..'' then clean_elems rooted (e # out) es
                     else clean_elems rooted ts es)
      else clean_elems rooted (e # out) es)"

definition path_Clean :: "string \<Rightarrow> string" where
  "path_Clean p =
     (if p = [] then ''.''
      else let rooted = (hd p = CHR ''/'');
               r = (if rooted then ''/'' else []) @ join_slash (clean_elems rooted [] (split_slash p))
           in if r = [] then ''.'' else r)"

text \<open>
  \<^verbatim>\<open>path.Join\<close>: leading empty elements are ignored, the rest is joined with slashes
  and cleaned; no non-empty element at all gives the empty string. On the platforms with
  the separator \<^verbatim>\<open>/\<close>, \<^verbatim>\<open>filepath.Join\<close> is the same function.
\<close>

definition path_Join :: "string list \<Rightarrow> string" where
  "path_Join elem =
     (case dropWhile (\<lambda>e. e = []) elem of
        [] \<Rightarrow> []
      | e # es \<Rightarrow> path_Clean (join_slash (e # es)))"

definition filepath_Join :: "string list \<Rightarrow> string" where
  "filepath_Join elem = path_Join elem"

subsection \<open>Package encoding/hex\<close>

definition hexdigit :: "nat \<Rightarrow> char" where
  "hexdigit n = ''0123456789abcdef'' ! (n mod 16)"

text \<open>\<^verbatim>\<open>hex.EncodeToString\<close>: two lower-case digits for each byte.\<close>

fun hex_EncodeToString :: "string \<Rightarrow> string" where
  "hex_EncodeToString [] = []"
| "hex_EncodeToString (b # bs) =
     hexdigit (of_char b div 16) # hexdigit (of_char b mod 16) # hex_EncodeToString bs"

subsection \<open>Package strconv: \<^verbatim>\<open>Quote\<close>\<close>

text \<open>
  The verb \<^verbatim>\<open>%q\<close> of package fmt on a string is \<^verbatim>\<open>strconv.Quote\<close>. It reads the
  string rune by rune. \<^verbatim>\<open>strconv.IsPrint\<close> is decided in the code up to U+00FF and
  by tables of the standard library above; those tables are a parameter, a
  \<open>PrintTable\<close>.
\<close>

type_synonym PrintTable = "nat \<Rightarrow> bool"

text \<open>
  \<^verbatim>\<open>utf8.DecodeRuneInString\<close>: the rune at the start of the string and the number of
  bytes it takes; an encoding that is not valid gives \<^verbatim>\<open>RuneError\<close> and one byte.
\<close>

definition RuneError :: nat where
  "RuneError = 0xFFFD"

fun utf8_DecodeRuneInString :: "string \<Rightarrow> nat \<times> nat" where
  "utf8_DecodeRuneInString [] = (RuneError, 0)"
| "utf8_DecodeRuneInString (c0 # s) =
     (let s0 = (of_char c0 :: nat) in
      if s0 < 0x80 then (s0, 1)
      else if s0 < 0xC2 \<or> 0xF4 < s0 then (RuneError, 1)
      else
        let sz = (if s0 < 0xE0 then 2 else if s0 < 0xF0 then 3 else 4 :: nat);
            lo = (if s0 = 0xE0 then 0xA0 else if s0 = 0xF0 then 0x90 else 0x80 :: nat);
            hi = (if s0 = 0xED then 0x9F else if s0 = 0xF4 then 0x8F else 0xBF :: nat)
        in case s of
             [] \<Rightarrow> (RuneError, 1)
           | c1 # t1 \<Rightarrow>
               let s1 = (of_char c1 :: nat) in
               if s1 < lo \<or> hi < s1 then (RuneError, 1)
               else if sz \<le> 2 then ((s0 mod 32) * 64 + s1 mod 64, 2)
               else (case t1 of
                  [] \<Rightarrow> (RuneError, 1)
                | c2 # t2 \<Rightarrow>
                    let s2 = (of_char c2 :: nat) in
                    if s2 < 0x80 \<or> 0xBF < s2 then (RuneError, 1)
                    else if sz \<le> 3 then
                      ((s0 mod 16) * 4096 + (s1 mod 64) * 64 + s2 mod 64, 3)
                    else (case t2 of
                       [] \<Rightarrow> (RuneError, 1)
                     | c3 # t3 \<Rightarrow>
                         let s3 = (of_char c3 :: nat) in
                         if s3 < 0x80 \<or> 0xBF < s3 then (RuneError, 1)
                         else ((s0 mod 8) * 262144 + (s1 mod 64) * 4096
                                 + (s2 mod 64) * 64 + s3 mod 64, 4))))"

text \<open>\<^verbatim>\<open>strconv.IsPrint\<close>.\<close>

definition strconv_IsPrint :: "PrintTable \<Rightarrow> nat \<Rightarrow> bool" where
  "strconv_IsPrint table r =
     (if r \<le> 0xFF then
        (0x20 \<le> r \<and> r \<le> 0x7E) \<or> (0xA1 \<le> r \<and> r \<le> 0xFF \<and> r \<noteq> 0xAD)
      else table r)"

text \<open>The last \<open>n\<close> hexadecimal digits of a number, lower case.\<close>

fun hexdigits :: "nat \<Rightarrow> nat \<Rightarrow> string" where
  "hexdigits 0 r = []"
| "hexdigits (Suc n) r = hexdigit (r div 16 ^ n) # hexdigits n r"

definition utf8_ValidRune :: "nat \<Rightarrow> bool" where
  "utf8_ValidRune r = (r < 0xD800 \<or> (0xDFFF < r \<and> r \<le> 0x10FFFF))"

text \<open>
  \<^verbatim>\<open>appendEscapedRune\<close> of package strconv for the quote \<^verbatim>\<open>"\<close>; \<open>bytes\<close> is the
  encoding of the rune, which \<^verbatim>\<open>utf8.AppendRune\<close> gives back for a printable rune.
\<close>

definition appendEscapedRune :: "PrintTable \<Rightarrow> nat \<Rightarrow> string \<Rightarrow> string" where
  "appendEscapedRune table r bytes =
     (if r = 0x22 \<or> r = 0x5C then CHR 0x5C # bytes
      else if strconv_IsPrint table r then bytes
      else if r = 7 then [CHR 0x5C, CHR ''a'']
      else if r = 8 then [CHR 0x5C, CHR ''b'']
      else if r = 12 then [CHR 0x5C, CHR ''f'']
      else if r = 10 then [CHR 0x5C, CHR ''n'']
      else if r = 13 then [CHR 0x5C, CHR ''r'']
      else if r = 9 then [CHR 0x5C, CHR ''t'']
      else if r = 11 then [CHR 0x5C, CHR ''v'']
      else if r < 0x20 \<or> r = 0x7F then [CHR 0x5C, CHR ''x''] @ hexdigits 2 r
      else if \<not> utf8_ValidRune r then [CHR 0x5C, CHR ''u''] @ hexdigits 4 0xFFFD
      else if r < 0x10000 then [CHR 0x5C, CHR ''u''] @ hexdigits 4 r
      else [CHR 0x5C, CHR ''U''] @ hexdigits 8 r)"

text \<open>
  The loop of \<^verbatim>\<open>appendQuotedWith\<close>; \<open>skip\<close> counts the bytes of the current rune
  that are still to be passed over.
\<close>

fun quote_runes :: "PrintTable \<Rightarrow> nat \<Rightarrow> string \<Rightarrow> string" where
  "quote_runes table skip [] = []"
| "quote_runes table (Suc skip) (c # s) = quote_runes table skip s"
| "quote_runes table 0 (c # s) =
     (case utf8_DecodeRuneInString (c # s) of
        (r, width) \<Rightarrow>
          (if width = 1 \<and> r = RuneError then [CHR 0x5C, CHR ''x''] @ hexdigits 2 (of_char c)
           else appendEscapedRune table r (take width (c # s)))
          @ quote_runes table (width - 1) s)"

definition strconv_Quote :: "PrintTable \<Rightarrow> string \<Rightarrow> string" where
  "strconv_Quote table s = [CHR 0x22] @ quote_runes table 0 s @ [CHR 0x22]"

subsection \<open>Content model (package dist)\<close>

text \<open>
  The declarations of \<^verbatim>\<open>dist.AssetInfo\<close> and \<^verbatim>\<open>dist.AssetValue\<close> are taken from their
  uses in \<^verbatim>\<open>create_asset_package_test.go\<close> and from the data model of the specification.
\<close>

record AssetInfo =
  ID :: string
  Name :: string
  Version :: string
  URI :: string
  Sha256 :: string
  Stacks :: "string list"

record AssetValue =
  ID :: string
  Name :: string
  Version :: string
  URI :: string
  Stacks :: "string list"
  LayerDiffID :: string

type_synonym AssetMap = "string \<rightharpoonup> AssetValue"

text \<open>
  Modelled from the spec: \<^verbatim>\<open>AssetInfo.ToAssetValue\<close> is not among the sources. An
  \<^verbatim>\<open>AssetValue\<close> is the persisted metadata of one asset: the identity fields of the
  declared asset and the diff-id of its layer.
\<close>

definition ToAssetValue :: "AssetInfo \<Rightarrow> string \<Rightarrow> AssetValue" where
  "ToAssetValue a layerDiffID =
     \<lparr> AssetValue.ID = AssetInfo.ID a,
       AssetValue.Name = AssetInfo.Name a,
       AssetValue.Version = AssetInfo.Version a,
       AssetValue.URI = AssetInfo.URI a,
       AssetValue.Stacks = AssetInfo.Stacks a,
       LayerDiffID = layerDiffID \<rparr>"

text \<open>
  A \<^verbatim>\<open>Blob\<close>: its descriptor, and what \<^verbatim>\<open>Open\<close> gives: an error message, or a stream
  whose reading to the end gives an error message or the content.
\<close>

type_synonym ReadCloser = "string + string"

record Blob =
  AssetDescriptor :: AssetInfo
  BlobOpen :: "string + ReadCloser"

subsection \<open>The tar writer (package archive)\<close>

datatype Typeflag = TypeDir | TypeReg

text \<open>The fields of \<^verbatim>\<open>tar.Header\<close> that the writer sets; \<open>ModTime\<close> in seconds.\<close>

record Header =
  Typeflag :: Typeflag
  Name :: string
  Mode :: int
  Size :: int
  ModTime :: int

datatype TarCall = WriteHeaderCall Header | WriteCall string | CloseCall

text \<open>
  A \<^verbatim>\<open>TarWriterFactory\<close> makes tar writers over an \<^verbatim>\<open>io.Writer\<close>. A writer answers a
  call, given the calls made on it before, with the bytes it sends to the underlying
  writer and an error message or none.
\<close>

type_synonym TarWriterFactory = "TarCall list \<Rightarrow> TarCall \<Rightarrow> string \<times> string option"

record TarWriter =
  tw_factory :: TarWriterFactory
  tw_calls :: "TarCall list"
  tw_out :: string

definition NewWriter :: "TarWriterFactory \<Rightarrow> TarWriter" where
  "NewWriter twf = \<lparr> tw_factory = twf, tw_calls = [], tw_out = [] \<rparr>"

definition tw_call :: "TarWriter \<Rightarrow> TarCall \<Rightarrow> string option \<times> TarWriter" where
  "tw_call tw c =
     (case tw_factory tw (tw_calls tw) c of
        (out, err) \<Rightarrow> (err, tw\<lparr> tw_calls := tw_calls tw @ [c], tw_out := tw_out tw @ out \<rparr>))"

definition WriteHeader :: "TarWriter \<Rightarrow> Header \<Rightarrow> string option \<times> TarWriter" where
  "WriteHeader tw h = tw_call tw (WriteHeaderCall h)"

definition tw_Write :: "TarWriter \<Rightarrow> string \<Rightarrow> string option \<times> TarWriter" where
  "tw_Write tw b = tw_call tw (WriteCall b)"

definition tw_Close :: "TarWriter \<Rightarrow> string option \<times> TarWriter" where
  "tw_Close tw = tw_call tw CloseCall"

text \<open>
  What the writer takes from its surroundings: the constant
  \<^verbatim>\<open>archive.NormalizedDateTime\<close>, the SHA-256 digest of the standard library,
  \<^verbatim>\<open>json.Marshal\<close> on an \<^verbatim>\<open>AssetMap\<close>, and the tables of \<^verbatim>\<open>strconv.IsPrint\<close>.
\<close>

record Deps =
  NormalizedDateTime :: int
  sha256_Sum :: "string \<Rightarrow> string"
  json_Marshal :: "AssetMap \<Rightarrow> string"
  IsPrint :: PrintTable

text \<open>
  Modelled from the spec: \<^verbatim>\<open>archive.GenerateTarWithWriter\<close> is not among the sources. It
  runs the generator on a new tar writer of the factory and closes the writer; the
  reader it returns delivers the bytes the writer sent, and then the generator's error
  if it had one.
\<close>

type_synonym LayerReader = "string \<times> error option"

definition GenerateTarWithWriter ::
  "(TarWriter \<Rightarrow> error option \<times> TarWriter) \<Rightarrow> TarWriterFactory \<Rightarrow> LayerReader" where
  "GenerateTarWithWriter genFn twf =
     (case genFn (NewWriter twf) of
        (err, tw) \<Rightarrow> (tw_out (snd (tw_Close tw)), err))"

text \<open>The file mode \<^verbatim>\<open>0755\<close>, an octal literal.\<close>

definition mode_0755 :: int where
  "mode_0755 = 7 * 64 + 5 * 8 + 5"

text \<open>\<^verbatim>\<open>toAssetTar\<close>, writer.go lines 160 to 205.\<close>

definition toAssetTar :: "Deps \<Rightarrow> TarWriter \<Rightarrow> string \<Rightarrow> Blob \<Rightarrow> error option \<times> TarWriter" where
  "toAssetTar deps tw blobSha blob =
     (let ts = NormalizedDateTime deps in
      case WriteHeader tw \<lparr> Typeflag = TypeDir, Name = path_Join [''/cnb''],
                            Mode = mode_0755, Size = 0, ModTime = ts \<rparr> of
        (Some e, tw1) \<Rightarrow> (Some (Wrapf (External e) ''writing asset package /cnb dir header''), tw1)
      | (None, tw1) \<Rightarrow>
      (case WriteHeader tw1 \<lparr> Typeflag = TypeDir, Name = path_Join [''/cnb'', ''assets''],
                             Mode = mode_0755, Size = 0, ModTime = ts \<rparr> of
        (Some e, tw2) \<Rightarrow>
          (Some (Wrapf (External e) ''writing asset package /cnb/asset dir header''), tw2)
      | (None, tw2) \<Rightarrow>
      (case BlobOpen blob of
        Inl e \<Rightarrow>
          (Some (Wrapf (External e)
                   (''unable to open blob for asset '' @ strconv_Quote (IsPrint deps) blobSha)), tw2)
      | Inr rc \<Rightarrow>
      (case rc of
        Inl e \<Rightarrow> (Some (Wrapf (External e) ''unable to copy blob contents to buffer''), tw2)
      | Inr buf \<Rightarrow>
      (case WriteHeader tw2 \<lparr> Typeflag = TypeReg, Name = path_Join [''/cnb'', ''assets'', blobSha],
                             Mode = mode_0755, Size = int (length buf), ModTime = ts \<rparr> of
        (Some e, tw3) \<Rightarrow>
          (Some (Wrapf (External e)
                   (''writing asset package /cnb/asset/'' @ blobSha @ '' file'')), tw3)
      | (None, tw3) \<Rightarrow>
      (case tw_Write tw3 buf of
        (err, tw4) \<Rightarrow> (map_option External err, tw4)))))))"

subsection \<open>The operating system\<close>

datatype fsnode = Dir | File string

text \<open>
  The file system maps a path to what is there. The four functions say how the calls
  of packages \<^verbatim>\<open>os\<close> and \<^verbatim>\<open>ioutil\<close> end for reasons the path map does not show
  (permissions, a full disk): \<open>TempDir_result\<close> is the error message of
  \<^verbatim>\<open>ioutil.TempDir\<close> or the random part of the name it chooses; \<open>OpenFile_error\<close> and
  \<open>RemoveAll_error\<close> give the error message of the call on a path, or none;
  \<open>WriteFile_error\<close> says, for the bytes that are to go to a file, after how many of
  them a write fails and with what message, or that none fails.
\<close>

record OS =
  fs :: "string \<rightharpoonup> fsnode"
  TempDir_result :: "string + string"
  OpenFile_error :: "string \<Rightarrow> string option"
  WriteFile_error :: "string \<Rightarrow> string \<Rightarrow> (nat \<times> string) option"
  RemoveAll_error :: "string \<Rightarrow> string option"

text \<open>
  \<^verbatim>\<open>ioutil.TempDir("", pattern)\<close>: a new directory under the default directory for
  temporary files, here \<^verbatim>\<open>/tmp\<close>, whose name starts with the pattern.
\<close>

definition ioutil_TempDir :: "OS \<Rightarrow> string \<Rightarrow> (string + string) \<times> OS" where
  "ioutil_TempDir os pattern =
     (case TempDir_result os of
        Inl e \<Rightarrow> (Inl e, os)
      | Inr rnd \<Rightarrow>
          (let name = ''/tmp/'' @ pattern @ rnd
           in (Inr name, os\<lparr> fs := (fs os)(name \<mapsto> Dir) \<rparr>)))"

text \<open>
  \<^verbatim>\<open>filepath.Dir\<close>, with the separator \<^verbatim>\<open>/\<close>: the path up to its last slash,
  cleaned.
\<close>

definition filepath_Dir :: "string \<Rightarrow> string" where
  "filepath_Dir p = path_Clean (rev (dropWhile (\<lambda>c. c \<noteq> CHR ''/'') (rev p)))"

text \<open>
  \<^verbatim>\<open>os.OpenFile(name, os.O_RDWR|os.O_TRUNC|os.O_CREATE, 0644)\<close>: the call is refused
  for the empty name, for a directory, and when the directory of the name is not there
  (the root and the current directory always are); otherwise the file is there
  afterwards, and empty.
\<close>

definition os_OpenFile :: "OS \<Rightarrow> string \<Rightarrow> string option \<times> OS" where
  "os_OpenFile os name =
     (case OpenFile_error os name of
        Some e \<Rightarrow> (Some e, os)
      | None \<Rightarrow>
          if name = [] then (Some (''open : no such file or directory''), os)
          else if fs os name = Some Dir then
            (Some (''open '' @ name @ '': is a directory''), os)
          else if filepath_Dir name = ''/'' \<or> filepath_Dir name = ''.''
                  \<or> fs os (filepath_Dir name) = Some Dir then
            (None, os\<lparr> fs := (fs os)(name \<mapsto> File []) \<rparr>)
          else if fs os (filepath_Dir name) = None then
            (Some (''open '' @ name @ '': no such file or directory''), os)
          else (Some (''open '' @ name @ '': not a directory''), os))"

text \<open>\<open>within d p\<close>: the path \<open>p\<close> is \<open>d\<close> or lies below it.\<close>

definition within :: "string \<Rightarrow> string \<Rightarrow> bool" where
  "within d p = (p = d \<or> prefix (d @ ''/'') p)"

text \<open>\<^verbatim>\<open>os.RemoveAll(path)\<close>: removes the path and everything below it.\<close>

definition os_RemoveAll :: "OS \<Rightarrow> string \<Rightarrow> string option \<times> OS" where
  "os_RemoveAll os path =
     (case RemoveAll_error os path of
        Some e \<Rightarrow> (Some e, os)
      | None \<Rightarrow> (None, os\<lparr> fs := (\<lambda>p. if within path p then None else fs os p) \<rparr>))"

subsection \<open>The writable target\<close>

datatype WritableCall = AddLayerCall string string | SetLabelCall string string

text \<open>
  A \<^verbatim>\<open>Writable\<close>: the calls made on it so far, and its answer to a call, given the
  calls before it: an error message or none.
\<close>

record Writable =
  w_calls :: "WritableCall list"
  w_answer :: "WritableCall list \<Rightarrow> WritableCall \<Rightarrow> string option"

definition w_call :: "Writable \<Rightarrow> WritableCall \<Rightarrow> string option \<times> Writable" where
  "w_call w c = (w_answer w (w_calls w) c, w\<lparr> w_calls := w_calls w @ [c] \<rparr>)"

definition AddLayerWithDiffID :: "Writable \<Rightarrow> string \<Rightarrow> string \<Rightarrow> string option \<times> Writable" where
  "AddLayerWithDiffID w path diffID = w_call w (AddLayerCall path diffID)"

definition SetLabel :: "Writable \<Rightarrow> string \<Rightarrow> string \<Rightarrow> string option \<times> Writable" where
  "SetLabel w k v = w_call w (SetLabelCall k v)"

text \<open>
  Modelled from the spec: the constant \<^verbatim>\<open>LayersLabel\<close> is not among the sources; the
  label key is fixed to \<^verbatim>\<open>io.buildpacks.asset.layers\<close>.
\<close>

definition LayersLabel :: string where
  "LayersLabel = ''io.buildpacks.asset.layers''"

text \<open>
  Modelled from the spec: \<^verbatim>\<open>dist.SetLabel\<close> is not among the sources. It serializes the
  data as JSON and sets it as one label on the target; a failure of the target is
  returned wrapped, naming the label write.
\<close>

definition dist_SetLabel :: "Deps \<Rightarrow> Writable \<Rightarrow> string \<Rightarrow> AssetMap \<Rightarrow> error option \<times> Writable" where
  "dist_SetLabel deps w label data =
     (case SetLabel w label (json_Marshal deps data) of
        (Some e, w') \<Rightarrow> (Some (Wrapf (External e) (''setting label '' @ label)), w')
      | (None, w') \<Rightarrow> (None, w'))"

subsection \<open>The layer writer\<close>

record AssetWriter =
  tmpDir :: string
  blobs :: "Blob list"
  metadata :: AssetMap
  writerFactory :: TarWriterFactory

definition NewLayerWriter :: "TarWriterFactory \<Rightarrow> AssetWriter" where
  "NewLayerWriter twf = \<lparr> tmpDir = [], blobs = [], metadata = Map.empty, writerFactory = twf \<rparr>"

text \<open>\<^verbatim>\<open>Open\<close>, writer.go lines 61 to 73.\<close>

definition Open :: "AssetWriter \<Rightarrow> OS \<Rightarrow> error option \<times> AssetWriter \<times> OS" where
  "Open lw os =
     (if tmpDir lw \<noteq> [] then
        (Some (New ''unable to open writer: writer already open''), lw, os)
      else case ioutil_TempDir os ''writer-workspace'' of
        (Inl e, os') \<Rightarrow> (Some (External e), lw, os')
      | (Inr d, os') \<Rightarrow> (None, lw\<lparr> tmpDir := d \<rparr>, os'))"

text \<open>\<^verbatim>\<open>Close\<close>, writer.go lines 76 to 87.\<close>

definition Close :: "AssetWriter \<Rightarrow> OS \<Rightarrow> error option \<times> AssetWriter \<times> OS" where
  "Close lw os =
     (if tmpDir lw = [] then
        (Some (New ''unable to close writer: writer is not open''), lw, os)
      else case os_RemoveAll os (tmpDir lw) of
        (Some e, os') \<Rightarrow> (Some (External e), lw, os')
      | (None, os') \<Rightarrow> (None, lw\<lparr> tmpDir := [] \<rparr>, os'))"

text \<open>
  \<^verbatim>\<open>createAssetLayerFile\<close>, writer.go lines 141 to 158. The file is created or
  truncated. \<^verbatim>\<open>io.Copy\<close> sends the bytes the reader delivers to the file and to the
  hasher, the file first: a write to the file that fails ends the copy with the error of
  the write, the file holding the bytes written before; an error of the reader ends the
  copy after its bytes. A reader that delivers no byte causes no write.
\<close>

definition createAssetLayerFile ::
  "Deps \<Rightarrow> string \<Rightarrow> LayerReader \<Rightarrow> OS \<Rightarrow> (error + string) \<times> OS" where
  "createAssetLayerFile deps layerFileName assetLayer os =
     (case os_OpenFile os layerFileName of
        (Some e, os1) \<Rightarrow> (Inl (External e), os1)
      | (None, os1) \<Rightarrow>
          (case assetLayer of
             (written, rerr) \<Rightarrow>
               (case (if written = [] then None else WriteFile_error os1 layerFileName written) of
                  Some (n, e) \<Rightarrow>
                    (Inl (External e),
                     os1\<lparr> fs := (fs os1)(layerFileName \<mapsto> File (take n written)) \<rparr>)
                | None \<Rightarrow>
                    (let os2 = os1\<lparr> fs := (fs os1)(layerFileName \<mapsto> File written) \<rparr>
                     in case rerr of
                          Some err \<Rightarrow> (Inl err, os2)
                        | None \<Rightarrow> (Inr (hex_EncodeToString (sha256_Sum deps written)), os2)))))"

text \<open>The reader that \<^verbatim>\<open>Write\<close> builds for a blob, writer.go lines 101 to 104.\<close>

definition assetLayerReader :: "Deps \<Rightarrow> TarWriterFactory \<Rightarrow> Blob \<Rightarrow> LayerReader" where
  "assetLayerReader deps twf aBlob =
     GenerateTarWithWriter
       (\<lambda>tw. toAssetTar deps tw (Sha256 (AssetDescriptor aBlob)) aBlob) twf"

text \<open>
  The loop of \<^verbatim>\<open>Write\<close>, writer.go lines 97 to 121, over the blobs that remain; the
  metadata map, the target and the file system are threaded through.
\<close>

fun Write_loop ::
  "Deps \<Rightarrow> string \<Rightarrow> TarWriterFactory \<Rightarrow> Blob list \<Rightarrow> AssetMap \<Rightarrow> Writable \<Rightarrow> OS
     \<Rightarrow> error option \<times> AssetMap \<times> Writable \<times> OS" where
  "Write_loop deps tmp twf [] md w os = (None, md, w, os)"
| "Write_loop deps tmp twf (aBlob # rest) md w os =
     (let descriptor = AssetDescriptor aBlob;
          layerFileName = filepath_Join [tmp, Sha256 descriptor]
      in case createAssetLayerFile deps layerFileName (assetLayerReader deps twf aBlob) os of
           (Inl err, os1) \<Rightarrow> (Some (Wrapf err ''unable to create asset layer file''), md, w, os1)
         | (Inr layerDiffID, os1) \<Rightarrow>
             (case AddLayerWithDiffID w layerFileName (''sha256:'' @ layerDiffID) of
                (Some err, w1) \<Rightarrow>
                  (Some (Wrapf (External err) ''unable to write layer''), md, w1, os1)
              | (None, w1) \<Rightarrow>
                  (case md (Sha256 descriptor) of
                     None \<Rightarrow>
                       (Some (Errorf (''unknown sha256 asset value '' @ Sha256 descriptor)),
                        md, w1, os1)
                   | Some m \<Rightarrow>
                       Write_loop deps tmp twf rest
                         (md(Sha256 descriptor \<mapsto> m\<lparr> LayerDiffID := ''sha256:'' @ layerDiffID \<rparr>))
                         w1 os1)))"

text \<open>\<^verbatim>\<open>Write\<close>, writer.go lines 92 to 124.\<close>

definition Write ::
  "Deps \<Rightarrow> AssetWriter \<Rightarrow> Writable \<Rightarrow> OS \<Rightarrow> error option \<times> AssetWriter \<times> Writable \<times> OS" where
  "Write deps lw w os =
     (if tmpDir lw = [] then
        (Some (New ''AssetWriter must be opened before writing''), lw, w, os)
      else case Write_loop deps (tmpDir lw) (writerFactory lw) (blobs lw) (metadata lw) w os of
        (Some err, md, w1, os1) \<Rightarrow> (Some err, lw\<lparr> metadata := md \<rparr>, w1, os1)
      | (None, md, w1, os1) \<Rightarrow>
          (case dist_SetLabel deps w1 LayersLabel md of
             (err, w2) \<Rightarrow> (err, lw\<lparr> metadata := md \<rparr>, w2, os1)))"

text \<open>\<^verbatim>\<open>AddAssetBlobs\<close>, writer.go lines 128 to 135.\<close>

definition AddAssetBlobs :: "AssetWriter \<Rightarrow> Blob list \<Rightarrow> AssetWriter" where
  "AddAssetBlobs lw aBlobs =
     lw\<lparr> blobs := blobs lw @ aBlobs,
         metadata :=
           fold (\<lambda>b md. md(Sha256 (AssetDescriptor b) \<mapsto> ToAssetValue (AssetDescriptor b) []))
                aBlobs (metadata lw) \<rparr>"

text \<open>
  \<^verbatim>\<open>AssetMetadata\<close>, writer.go lines 137 to 139, returns the writer's own map: a Go
  map is a reference, so the caller and the writer hold the same map. What the caller
  reads in it is \<open>AssetMetadata\<close>; an assignment \<^verbatim>\<open>m[k] = v\<close> or a \<^verbatim>\<open>delete(m, k)\<close>
  on the map \<^verbatim>\<open>m\<close> it was given changes the map of the writer.
\<close>

definition AssetMetadata :: "AssetWriter \<Rightarrow> AssetMap" where
  "AssetMetadata lw = metadata lw"

definition AssetMetadata_store :: "AssetWriter \<Rightarrow> string \<Rightarrow> AssetValue \<Rightarrow> AssetWriter" where
  "AssetMetadata_store lw k v = lw\<lparr> metadata := (metadata lw)(k \<mapsto> v) \<rparr>"

definition AssetMetadata_delete :: "AssetWriter \<Rightarrow> string \<Rightarrow> AssetWriter" where
  "AssetMetadata_delete lw k = lw\<lparr> metadata := (metadata lw)(k := None) \<rparr>"

subsection \<open>The URI fetchers\<close>

text \<open>
  A Go function returns its results or panics; \<open>Panicked\<close> carries the value given to
  \<^verbatim>\<open>panic\<close>.
\<close>

datatype 'a outcome = Returned 'a | Panicked error

text \<open>
  The opaque values the fetchers pass on: a downloaded \<^verbatim>\<open>blob.Blob\<close>, an OCI layout
  package opened from a blob, an image. Each is named by where it came from.
\<close>

datatype RawBlob = RawBlob string
datatype OciLayoutPackage = OciLayoutPackage string
datatype Image = Image string

text \<open>The parts of \<^verbatim>\<open>url.URL\<close> that the fetchers read.\<close>

record URL =
  Scheme :: string
  url_String :: string

text \<open>
  The collaborators of a URI fetcher: \<^verbatim>\<open>url.Parse\<close>; the embedded \<^verbatim>\<open>Downloader\<close>,
  called with the option \<^verbatim>\<open>blob.RawDownload\<close>; the constructor of the layout package;
  \<^verbatim>\<open>paths.URIToFilePath\<close>; the \<^verbatim>\<open>FileFetcher\<close>, given a working directory and
  file names; and the tables of \<^verbatim>\<open>strconv.IsPrint\<close>. \<open>Inl\<close> and \<open>Some\<close> carry the
  message of the error.
\<close>

record URIFetcherDeps =
  url_Parse :: "string \<Rightarrow> string + URL"
  Download :: "string \<Rightarrow> string + RawBlob"
  NewLayoutPackage :: "RawBlob \<Rightarrow> string + OciLayoutPackage"
  URIToFilePath :: "string \<Rightarrow> string + string"
  FetchFileAssets :: "string \<Rightarrow> string list \<Rightarrow> OciLayoutPackage list \<times> string option"
  uri_IsPrint :: PrintTable

text \<open>
  \<^verbatim>\<open>PackageURLFetcher.FetchURIAssets\<close>, writer.go lines 242 to 277; the loop over the
  references, with the result accumulated so far.
\<close>

fun PackageURLFetcher_FetchURIAssets_loop ::
  "URIFetcherDeps \<Rightarrow> OciLayoutPackage list \<Rightarrow> string list
     \<Rightarrow> OciLayoutPackage list \<times> error option" where
  "PackageURLFetcher_FetchURIAssets_loop a result [] = (result, None)"
| "PackageURLFetcher_FetchURIAssets_loop a result (assetFile # rest) =
     (case url_Parse a assetFile of
        Inl err \<Rightarrow> (result, Some (Errorf (''unable to parse asset url: '' @ err)))
      | Inr uri \<Rightarrow>
          if Scheme uri = ''http'' \<or> Scheme uri = ''https'' then
            (case Download a (url_String uri) of
               Inl err \<Rightarrow>
                 (result, Some (Errorf (''unable to download asset: '' @ strconv_Quote (uri_IsPrint a) err)))
             | Inr assetBlob \<Rightarrow>
                 (case NewLayoutPackage a assetBlob of
                    Inl err \<Rightarrow>
                      (result,
                       Some (Wrapf (External err) ''error opening asset package in OCI format''))
                  | Inr p \<Rightarrow> PackageURLFetcher_FetchURIAssets_loop a (result @ [p]) rest))
          else if Scheme uri = ''file'' then
            (case URIToFilePath a (url_String uri) of
               Inl err \<Rightarrow>
                 (result, Some (Errorf (''unable to get asset filepath: '' @ strconv_Quote (uri_IsPrint a) err)))
             | Inr assetFilePath \<Rightarrow>
                 (case FetchFileAssets a [] [assetFilePath] of
                    (assetsFromFile, Some err) \<Rightarrow>
                      (result,
                       Some (Errorf (''unable to fetch local file asset: '' @ strconv_Quote (uri_IsPrint a) err)))
                  | (assetsFromFile, None) \<Rightarrow>
                      PackageURLFetcher_FetchURIAssets_loop a (result @ assetsFromFile) rest))
          else (result,
                Some (Errorf (''unable to handle url scheme: '' @ strconv_Quote (uri_IsPrint a) (Scheme uri)))))"

definition PackageURLFetcher_FetchURIAssets ::
  "URIFetcherDeps \<Rightarrow> string list \<Rightarrow> OciLayoutPackage list \<times> error option" where
  "PackageURLFetcher_FetchURIAssets a uriAssets = PackageURLFetcher_FetchURIAssets_loop a [] uriAssets"

text \<open>
  \<^verbatim>\<open>AssetURIFetcher.FetchURIAssets\<close>, writer.go lines 311 to 347: the same loop, but a
  blob that does not open as a layout package ends in \<^verbatim>\<open>panic(err)\<close>.
\<close>

fun AssetURIFetcher_FetchURIAssets_loop ::
  "URIFetcherDeps \<Rightarrow> OciLayoutPackage list \<Rightarrow> string list
     \<Rightarrow> (OciLayoutPackage list \<times> error option) outcome" where
  "AssetURIFetcher_FetchURIAssets_loop a result [] = Returned (result, None)"
| "AssetURIFetcher_FetchURIAssets_loop a result (assetFile # rest) =
     (case url_Parse a assetFile of
        Inl err \<Rightarrow> Returned (result, Some (Errorf (''unable to parse asset url: '' @ err)))
      | Inr uri \<Rightarrow>
          if Scheme uri = ''http'' \<or> Scheme uri = ''https'' then
            (case Download a (url_String uri) of
               Inl err \<Rightarrow>
                 Returned (result, Some (Errorf (''unable to download asset: '' @ strconv_Quote (uri_IsPrint a) err)))
             | Inr assetBlob \<Rightarrow>
                 (case NewLayoutPackage a assetBlob of
                    Inl err \<Rightarrow> Panicked (External err)
                  | Inr p \<Rightarrow> AssetURIFetcher_FetchURIAssets_loop a (result @ [p]) rest))
          else if Scheme uri = ''file'' then
            (case URIToFilePath a (url_String uri) of
               Inl err \<Rightarrow>
                 Returned (result,
                           Some (Errorf (''unable to get asset filepath: '' @ strconv_Quote (uri_IsPrint a) err)))
             | Inr assetFilePath \<Rightarrow>
                 (case FetchFileAssets a [] [assetFilePath] of
                    (assetsFromFile, Some err) \<Rightarrow>
                      Returned (result,
                                Some (Errorf (''unable to fetch local file asset: ''
                                                @ strconv_Quote (uri_IsPrint a) err)))
                  | (assetsFromFile, None) \<Rightarrow>
                      AssetURIFetcher_FetchURIAssets_loop a (result @ assetsFromFile) rest))
          else Returned (result,
                         Some (Errorf (''unable to handle url scheme: ''
                                         @ strconv_Quote (uri_IsPrint a) (Scheme uri)))))"

definition AssetURIFetcher_FetchURIAssets ::
  "URIFetcherDeps \<Rightarrow> string list \<Rightarrow> (OciLayoutPackage list \<times> error option) outcome" where
  "AssetURIFetcher_FetchURIAssets a uriAssets = AssetURIFetcher_FetchURIAssets_loop a [] uriAssets"

subsection \<open>The fetcher\<close>

datatype Readable = OciReadable OciLayoutPackage | ImgReadable Image

datatype PullPolicy = PullAlways | PullNever | PullIfNotPresent

datatype Context = Background | Caller string

text \<open>
  The declaration of \<^verbatim>\<open>LocatorType\<close> is not among the sources: the three values that
  \<^verbatim>\<open>FetchAssets\<close> names, and \<open>InvalidLocator\<close> for any other value, which the
  \<^verbatim>\<open>default\<close> branch of its switch receives.
\<close>

datatype LocatorType = URILocator | FilepathLocator | ImageLocator | InvalidLocator

text \<open>
  What \<^verbatim>\<open>FetchAssets\<close> takes from its surroundings: \<^verbatim>\<open>os.Getwd\<close>, the functions
  \<^verbatim>\<open>GetLocatorType\<close> and \<^verbatim>\<open>LocatorType.String\<close>, which are not among the sources, and
  the tables of \<^verbatim>\<open>strconv.IsPrint\<close>.
\<close>

record FetcherDeps =
  Getwd :: "string + string"
  GetLocatorType :: "string \<Rightarrow> string \<Rightarrow> LocatorType"
  LocatorType_String :: "LocatorType \<Rightarrow> string"
  fetch_IsPrint :: PrintTable

text \<open>The three strategies of a \<^verbatim>\<open>Fetcher\<close>, each an interface with one method.\<close>

record Fetcher =
  assetFileFetcher :: "Context \<Rightarrow> string \<Rightarrow> string list \<Rightarrow> OciLayoutPackage list \<times> string option"
  assetURIFetcher :: "Context \<Rightarrow> string list \<Rightarrow> OciLayoutPackage list \<times> string option"
  assetImageFetcher :: "Context \<Rightarrow> PullPolicy \<Rightarrow> string list \<Rightarrow> Image list \<times> string option"

definition NewFetcher ::
  "(Context \<Rightarrow> string \<Rightarrow> string list \<Rightarrow> OciLayoutPackage list \<times> string option)
   \<Rightarrow> (Context \<Rightarrow> string list \<Rightarrow> OciLayoutPackage list \<times> string option)
   \<Rightarrow> (Context \<Rightarrow> PullPolicy \<Rightarrow> string list \<Rightarrow> Image list \<times> string option) \<Rightarrow> Fetcher" where
  "NewFetcher f u i = \<lparr> assetFileFetcher = f, assetURIFetcher = u, assetImageFetcher = i \<rparr>"

record FetcherConfig =
  ctx :: Context
  imagePullPolicy :: PullPolicy
  workingDir :: string

text \<open>\<^verbatim>\<open>DefaultFetcherConfig\<close>, fetcher.go lines 44 to 54.\<close>

definition DefaultFetcherConfig :: "FetcherDeps \<Rightarrow> error + FetcherConfig" where
  "DefaultFetcherConfig deps =
     (case Getwd deps of
        Inl err \<Rightarrow>
          Inl (Errorf (''unable to create asset fetcher config: ''
                       @ strconv_Quote (fetch_IsPrint deps) err))
      | Inr wd \<Rightarrow>
          Inr \<lparr> ctx = Background, imagePullPolicy = PullIfNotPresent, workingDir = wd \<rparr>)"

type_synonym FetcherOptions = "FetcherConfig \<Rightarrow> FetcherConfig"

definition WithPullPolicy :: "PullPolicy \<Rightarrow> FetcherOptions" where
  "WithPullPolicy policy cfg = cfg\<lparr> imagePullPolicy := policy \<rparr>"

definition WithContext :: "Context \<Rightarrow> FetcherOptions" where
  "WithContext c cfg = cfg\<lparr> ctx := c \<rparr>"

definition WithWorkingDir :: "string \<Rightarrow> FetcherOptions" where
  "WithWorkingDir wd cfg = cfg\<lparr> workingDir := wd \<rparr>"

definition castOCIToReadable :: "OciLayoutPackage list \<Rightarrow> Readable list" where
  "castOCIToReadable OCIAssets = fold (\<lambda>pkg result. result @ [OciReadable pkg]) OCIAssets []"

definition castImgToReadable :: "Image list \<Rightarrow> Readable list" where
  "castImgToReadable imgs = fold (\<lambda>pkg result. result @ [ImgReadable pkg]) imgs []"

text \<open>The calls made on the three strategies, for the log.\<close>

datatype FetchCall =
    FetchURIAssetsCall Context "string list"
  | FetchFileAssetsCall Context string "string list"
  | FetchImageAssetsCall Context PullPolicy "string list"

text \<open>
  The switch of \<^verbatim>\<open>FetchAssets\<close>, fetcher.go lines 92 to 104, for one reference: the
  readables and the error of the strategy chosen by the locator, with the call made; or
  \<open>None\<close> in the \<^verbatim>\<open>default\<close> branch.
\<close>

definition fetch_by_locator ::
  "Fetcher \<Rightarrow> FetcherConfig \<Rightarrow> LocatorType \<Rightarrow> string
     \<Rightarrow> (Readable list \<times> string option \<times> FetchCall) option" where
  "fetch_by_locator a cfg locator assetName =
     (case locator of
        URILocator \<Rightarrow>
          (case assetURIFetcher a (ctx cfg) [assetName] of
             (OCIAssets, err) \<Rightarrow>
               Some (castOCIToReadable OCIAssets, err, FetchURIAssetsCall (ctx cfg) [assetName]))
      | FilepathLocator \<Rightarrow>
          (case assetFileFetcher a (ctx cfg) (workingDir cfg) [assetName] of
             (OCIAssets, err) \<Rightarrow>
               Some (castOCIToReadable OCIAssets, err,
                     FetchFileAssetsCall (ctx cfg) (workingDir cfg) [assetName]))
      | ImageLocator \<Rightarrow>
          (case assetImageFetcher a (ctx cfg) (imagePullPolicy cfg) [assetName] of
             (imgAssets, err) \<Rightarrow>
               Some (castImgToReadable imgAssets, err,
                     FetchImageAssetsCall (ctx cfg) (imagePullPolicy cfg) [assetName]))
      | InvalidLocator \<Rightarrow> None)"

text \<open>
  The loop of \<^verbatim>\<open>FetchAssets\<close>, fetcher.go lines 87 to 109, with the result accumulated
  so far and the log of the calls.
\<close>

fun FetchAssets_loop ::
  "FetcherDeps \<Rightarrow> Fetcher \<Rightarrow> FetcherConfig \<Rightarrow> Readable list \<Rightarrow> FetchCall list \<Rightarrow> string list
     \<Rightarrow> (Readable list \<times> error option) \<times> FetchCall list" where
  "FetchAssets_loop deps a cfg result calls [] = ((result, None), calls)"
| "FetchAssets_loop deps a cfg result calls (assetName # rest) =
     (let locator = GetLocatorType deps assetName (workingDir cfg)
      in case fetch_by_locator a cfg locator assetName of
           None \<Rightarrow>
             ((result,
               Some (Errorf (''unable to determine asset type from name: '' @ assetName))), calls)
         | Some (assets, Some err, call) \<Rightarrow>
             ((result,
               Some (Errorf (''unable to fetch asset of type ''
                               @ strconv_Quote (fetch_IsPrint deps) (LocatorType_String deps locator)
                               @ '': '' @ err))),
              calls @ [call])
         | Some (assets, None, call) \<Rightarrow>
             FetchAssets_loop deps a cfg (result @ assets) (calls @ [call]) rest)"

text \<open>\<^verbatim>\<open>FetchAssets\<close>, fetcher.go lines 76 to 112.\<close>

definition FetchAssets ::
  "FetcherDeps \<Rightarrow> Fetcher \<Rightarrow> string list \<Rightarrow> FetcherOptions list
     \<Rightarrow> (Readable list \<times> error option) \<times> FetchCall list" where
  "FetchAssets deps a assetNameList options =
     (case DefaultFetcherConfig deps of
        Inl err \<Rightarrow> (([], Some err), [])
      | Inr cfg0 \<Rightarrow>
          FetchAssets_loop deps a (fold (\<lambda>option cfg. option cfg) options cfg0) [] [] assetNameList)"

text \<open>The configuration that \<^verbatim>\<open>FetchAssets\<close> works with, when there is one.\<close>

definition configured :: "FetcherDeps \<Rightarrow> FetcherOptions list \<Rightarrow> FetcherConfig \<Rightarrow> bool" where
  "configured deps options cfg =
     (case DefaultFetcherConfig deps of
        Inl err \<Rightarrow> False
      | Inr cfg0 \<Rightarrow> cfg = fold (\<lambda>option c. option c) options cfg0)"

text \<open>What one reference brings, its locator being decided by \<open>deps\<close>.\<close>

definition fetch_one ::
  "FetcherDeps \<Rightarrow> Fetcher \<Rightarrow> FetcherConfig \<Rightarrow> string
     \<Rightarrow> (Readable list \<times> string option \<times> FetchCall) option" where
  "fetch_one deps a cfg assetName =
     fetch_by_locator a cfg (GetLocatorType deps assetName (workingDir cfg)) assetName"

subsection \<open>Notions used in the properties\<close>

text \<open>
  \<open>last_with k bs\<close> is the last blob of \<open>bs\<close> whose declared hash is \<open>k\<close>;
  \<open>layerDiffID_of\<close> is the diff-id of the layer built for a blob: the tag
  \<^verbatim>\<open>sha256:\<close> and the hexadecimal digest of the bytes its reader delivers;
  \<open>record_diffID\<close> is the update of the metadata map at the end of one round of the
  loop of \<^verbatim>\<open>Write\<close>. A writer is \<open>consistent\<close> when its metadata map has an entry
  exactly for the declared hashes of its blobs, each with the identity fields of the
  last blob of that hash.

  \<open>reachable\<close> writers are those a caller obtains from \<^verbatim>\<open>NewLayerWriter\<close> by the
  methods of the interface \<^verbatim>\<open>LayerWriter\<close>, the changes it makes to the map that
  \<^verbatim>\<open>AssetMetadata\<close> hands out included. \<open>untampered\<close> writers are those among them
  whose map only the writer itself has changed: no step of the caller on that map.
\<close>

abbreviation sha_of :: "Blob \<Rightarrow> string" where
  "sha_of b \<equiv> Sha256 (AssetDescriptor b)"

definition last_with :: "string \<Rightarrow> Blob list \<Rightarrow> Blob option" where
  "last_with k bs = find (\<lambda>b. sha_of b = k) (rev bs)"

definition layerDiffID_of :: "Deps \<Rightarrow> TarWriterFactory \<Rightarrow> Blob \<Rightarrow> string" where
  "layerDiffID_of deps twf b =
     ''sha256:'' @ hex_EncodeToString (sha256_Sum deps (fst (assetLayerReader deps twf b)))"

definition record_diffID :: "Deps \<Rightarrow> TarWriterFactory \<Rightarrow> Blob \<Rightarrow> AssetMap \<Rightarrow> AssetMap" where
  "record_diffID deps twf b md =
     (case md (sha_of b) of
        None \<Rightarrow> md
      | Some m \<Rightarrow> md(sha_of b \<mapsto> m\<lparr> LayerDiffID := layerDiffID_of deps twf b \<rparr>))"

definition consistent :: "AssetWriter \<Rightarrow> bool" where
  "consistent lw =
     (\<forall>k. case last_with k (blobs lw) of
            None \<Rightarrow> metadata lw k = None
          | Some b \<Rightarrow> (\<exists>d. metadata lw k = Some (ToAssetValue (AssetDescriptor b) d)))"

fun is_SetLabel :: "WritableCall \<Rightarrow> bool" where
  "is_SetLabel (SetLabelCall k v) = True"
| "is_SetLabel (AddLayerCall p d) = False"

inductive untampered :: "AssetWriter \<Rightarrow> bool" where
  new: "untampered (NewLayerWriter twf)"
| add: "untampered lw \<Longrightarrow> untampered (AddAssetBlobs lw aBlobs)"
| opened: "untampered lw \<Longrightarrow> Open lw os = (err, lw', os') \<Longrightarrow> untampered lw'"
| closed: "untampered lw \<Longrightarrow> Close lw os = (err, lw', os') \<Longrightarrow> untampered lw'"
| written: "untampered lw \<Longrightarrow> Write deps lw w os = (err, lw', w', os') \<Longrightarrow> untampered lw'"

code_pred untampered .

inductive reachable :: "AssetWriter \<Rightarrow> bool" where
  new: "reachable (NewLayerWriter twf)"
| add: "reachable lw \<Longrightarrow> reachable (AddAssetBlobs lw aBlobs)"
| opened: "reachable lw \<Longrightarrow> Open lw os = (err, lw', os') \<Longrightarrow> reachable lw'"
| closed: "reachable lw \<Longrightarrow> Close lw os = (err, lw', os') \<Longrightarrow> reachable lw'"
| written: "reachable lw \<Longrightarrow> Write deps lw w os = (err, lw', w', os') \<Longrightarrow> reachable lw'"
| stored: "reachable lw \<Longrightarrow> reachable (AssetMetadata_store lw k v)"
| deleted: "reachable lw \<Longrightarrow> reachable (AssetMetadata_delete lw k)"

code_pred reachable .

text \<open>
  \<open>accepts_dirs\<close>: a new tar writer of the factory accepts the two directory headers
  that \<^verbatim>\<open>toAssetTar\<close> writes first.
\<close>

definition accepts_dirs :: "Deps \<Rightarrow> TarWriterFactory \<Rightarrow> bool" where
  "accepts_dirs deps twf =
     (let h1 = WriteHeaderCall \<lparr> Typeflag = TypeDir, Name = ''/cnb'', Mode = mode_0755,
                                  Size = 0, ModTime = NormalizedDateTime deps \<rparr>;
          h2 = WriteHeaderCall \<lparr> Typeflag = TypeDir, Name = ''/cnb/assets'', Mode = mode_0755,
                                  Size = 0, ModTime = NormalizedDateTime deps \<rparr>
      in snd (twf [] h1) = None \<and> snd (twf [h1] h2) = None)"

text \<open>
  \<open>layer_file_writable\<close>: the file can be opened as \<^verbatim>\<open>createAssetLayerFile\<close> opens it
  and the bytes can be written to it.
\<close>

definition layer_file_writable :: "OS \<Rightarrow> string \<Rightarrow> string \<Rightarrow> bool" where
  "layer_file_writable os name bytes =
     (fst (os_OpenFile os name) = None
      \<and> (bytes = [] \<or> WriteFile_error os name bytes = None))"

text \<open>
  What one round of the loop of \<^verbatim>\<open>Write\<close> leaves in the file system: the layer file
  of the blob, holding the bytes of its layer.
\<close>

definition store_layer ::
  "Deps \<Rightarrow> string \<Rightarrow> TarWriterFactory \<Rightarrow> Blob \<Rightarrow> (string \<rightharpoonup> fsnode) \<Rightarrow> (string \<rightharpoonup> fsnode)" where
  "store_layer deps tmp twf b files =
     files(filepath_Join [tmp, Sha256 (AssetDescriptor b)]
             \<mapsto> File (fst (assetLayerReader deps twf b)))"

text \<open>
  \<open>clean_relative s\<close>: no element of the path \<open>s\<close> is empty, \<^verbatim>\<open>.\<close> or \<^verbatim>\<open>..\<close>;
  in particular \<open>s\<close> is not empty and neither starts nor ends with a slash.
\<close>

definition clean_relative :: "string \<Rightarrow> bool" where
  "clean_relative s = (\<forall>e\<in>set (split_slash s). e \<noteq> [] \<and> e \<noteq> ''.'' \<and> e \<noteq> ''..'')"

text \<open>
  The calls that the generator of the reader of \<^verbatim>\<open>Write\<close>, writer.go lines 102 to
  104, makes on the new tar writer for a blob.
\<close>

definition layer_calls :: "Deps \<Rightarrow> TarWriterFactory \<Rightarrow> Blob \<Rightarrow> TarCall list" where
  "layer_calls deps twf aBlob =
     tw_calls (snd (toAssetTar deps (NewWriter twf) (Sha256 (AssetDescriptor aBlob)) aBlob))"

text \<open>The diff-ids of the layers added to a target, in the order of the calls.\<close>

fun added_diffIDs :: "WritableCall list \<Rightarrow> string list" where
  "added_diffIDs [] = []"
| "added_diffIDs (AddLayerCall p d # cs) = d # added_diffIDs cs"
| "added_diffIDs (SetLabelCall k v # cs) = added_diffIDs cs"

text \<open>Two blobs with the same declared hash and the same content.\<close>

definition same_asset :: "Blob \<Rightarrow> Blob \<Rightarrow> bool" where
  "same_asset b1 b2 =
     (Sha256 (AssetDescriptor b1) = Sha256 (AssetDescriptor b2) \<and> BlobOpen b1 = BlobOpen b2)"

section \<open>Example data\<close>

text \<open>
  Concrete collaborators on which the theorems below are instantiated: a tar writer that
  sends the name of each header and the bytes of each write, a one-byte digest in the
  place of SHA-256, a file system whose calls succeed, and a target that accepts every
  call. The assets are those of \<^verbatim>\<open>create_asset_package_test.go\<close>.
\<close>

definition ex_twf :: TarWriterFactory where
  "ex_twf hist c =
     (case c of
        WriteHeaderCall h \<Rightarrow> (Header.Name h @ ''|'', None)
      | WriteCall b \<Rightarrow> (b, None)
      | CloseCall \<Rightarrow> ([], None))"

definition ex_sum :: "string \<Rightarrow> string" where
  "ex_sum s = [char_of (length s)]"

definition ex_deps :: Deps where
  "ex_deps = \<lparr> NormalizedDateTime = 315532801, sha256_Sum = ex_sum, json_Marshal = (\<lambda>m. ''{}''),
                IsPrint = (\<lambda>r. True) \<rparr>"

definition ex_os :: OS where
  "ex_os = \<lparr> fs = Map.empty, TempDir_result = Inr ''123'',
             OpenFile_error = (\<lambda>p. None), WriteFile_error = (\<lambda>p b. None),
             RemoveAll_error = (\<lambda>p. None) \<rparr>"

definition ex_target :: Writable where
  "ex_target = \<lparr> w_calls = [], w_answer = (\<lambda>hist c. None) \<rparr>"

definition firstAsset :: AssetInfo where
  "firstAsset = \<lparr> AssetInfo.ID = ''first-asset'', AssetInfo.Name = ''First AssetInfo'',
                   AssetInfo.Version = ''1.2.3'', AssetInfo.URI = ''https://first-asset-uri'',
                   Sha256 = ''first-sha256'', AssetInfo.Stacks = [''io.buildpacks.stacks.bionic''] \<rparr>"

definition firstAssetBlob :: Blob where
  "firstAssetBlob = \<lparr> AssetDescriptor = firstAsset, BlobOpen = Inr (Inr ''first asset contents'') \<rparr>"

definition ex_open_writer :: AssetWriter where
  "ex_open_writer = \<lparr> tmpDir = ''/tmp/writer-workspace123'', blobs = [], metadata = Map.empty, writerFactory = ex_twf \<rparr>"

definition ex_open_os :: OS where
  "ex_open_os = ex_os\<lparr> fs := [''/tmp/writer-workspace123'' \<mapsto> Dir,
                              ''/tmp/writer-workspace123/first-sha256'' \<mapsto> File ''abc'',
                              ''/tmp/other'' \<mapsto> Dir] \<rparr>"

definition firstAssetReplace :: AssetInfo where
  "firstAssetReplace =
     \<lparr> AssetInfo.ID = ''first-asset-replace'', AssetInfo.Name = ''First AssetInfo Replace'',
       AssetInfo.Version = ''1.2.3'', AssetInfo.URI = ''https://first-asset-replace-uri'',
       Sha256 = ''first-sha256'', AssetInfo.Stacks = [''io.buildpacks.stacks.bionic''] \<rparr>"

definition secondAsset :: AssetInfo where
  "secondAsset =
     \<lparr> AssetInfo.ID = ''second-asset'', AssetInfo.Name = ''Second AssetInfo'',
       AssetInfo.Version = ''4.5.6'', AssetInfo.URI = ''https://second-asset-uri'',
       Sha256 = ''second-sha256'', AssetInfo.Stacks = [''io.buildpacks.stacks.bionic''] \<rparr>"

definition firstAssetReplaceBlob :: Blob where
  "firstAssetReplaceBlob =
     \<lparr> AssetDescriptor = firstAssetReplace, BlobOpen = Inr (Inr ''first replace asset contents'') \<rparr>"

definition secondAssetBlob :: Blob where
  "secondAssetBlob = \<lparr> AssetDescriptor = secondAsset, BlobOpen = Inr (Inr ''second asset contents'') \<rparr>"

definition ex_new_open :: AssetWriter where
  "ex_new_open = fst (snd (Open (NewLayerWriter ex_twf) ex_os))"

definition ex_two_blobs :: AssetWriter where
  "ex_two_blobs = AddAssetBlobs ex_new_open [firstAssetBlob, secondAssetBlob]"

definition ex_replaced :: AssetWriter where
  "ex_replaced = AddAssetBlobs (AddAssetBlobs ex_new_open [firstAssetBlob]) [firstAssetReplaceBlob]"

definition mockBlob :: Blob where
  "mockBlob = \<lparr> AssetDescriptor = firstAsset, BlobOpen = Inl ''open blob error'' \<rparr>"

definition ex_unreadable :: AssetWriter where
  "ex_unreadable = AddAssetBlobs ex_new_open [mockBlob]"



definition ex_tampered :: AssetWriter where
  "ex_tampered =
     AssetMetadata_delete (AddAssetBlobs ex_new_open [firstAssetBlob]) ''first-sha256''"

definition ex_windows_twf :: TarWriterFactory where
  "ex_windows_twf hist c =
     (case c of
        WriteHeaderCall h \<Rightarrow> (''Files'' @ Header.Name h @ ''|'', None)
      | WriteCall b \<Rightarrow> (b, None)
      | CloseCall \<Rightarrow> ([], None))"

definition ex_two_blobs_windows :: AssetWriter where
  "ex_two_blobs_windows =
     AddAssetBlobs (fst (snd (Open (NewLayerWriter ex_windows_twf) ex_os)))
       [firstAssetBlob, secondAssetBlob]"

definition firstAssetRenamedBlob :: Blob where
  "firstAssetRenamedBlob =
     \<lparr> AssetDescriptor = firstAssetReplace, BlobOpen = Inr (Inr ''first asset contents'') \<rparr>"

definition ex_two_blobs_again :: AssetWriter where
  "ex_two_blobs_again =
     AddAssetBlobs (ex_open_writer\<lparr> tmpDir := ''/tmp/writer-workspace456'' \<rparr>)
       [firstAssetRenamedBlob, secondAssetBlob]"

definition ex_open_os_again :: OS where
  "ex_open_os_again = ex_os\<lparr> fs := [''/tmp/writer-workspace456'' \<mapsto> Dir] \<rparr>"

text \<open>
  Collaborators of the fetchers: a parser that knows the three schemes, a downloader that
  always delivers, a layout package constructor that accepts one blob only; a fetcher
  whose strategies deliver for every reference except the one with \<^verbatim>\<open>bad\<close> in its
  place, and a locator that tells a URI by its scheme.
\<close>

definition ex_url_Parse :: "string \<Rightarrow> string + URL" where
  "ex_url_Parse s =
     (if prefix ''https://'' s then Inr \<lparr> Scheme = ''https'', url_String = s \<rparr>
      else if prefix ''http://'' s then Inr \<lparr> Scheme = ''http'', url_String = s \<rparr>
      else if prefix ''file://'' s then Inr \<lparr> Scheme = ''file'', url_String = s \<rparr>
      else Inr \<lparr> Scheme = [], url_String = s \<rparr>)"

definition ex_uri_deps :: URIFetcherDeps where
  "ex_uri_deps =
     \<lparr> url_Parse = ex_url_Parse,
       Download = (\<lambda>u. Inr (RawBlob u)),
       NewLayoutPackage =
         (\<lambda>b. case b of RawBlob u \<Rightarrow>
                 if u = ''https://example.com/good.tar'' then Inr (OciLayoutPackage u)
                 else Inl ''not an OCI layout''),
       URIToFilePath = (\<lambda>u. Inr (drop 7 u)),
       FetchFileAssets = (\<lambda>wd names. (map OciLayoutPackage names, None)),
       uri_IsPrint = (\<lambda>r. True) \<rparr>"

definition ex_fetcher :: Fetcher where
  "ex_fetcher =
     NewFetcher
       (\<lambda>c wd names. (map OciLayoutPackage names, None))
       (\<lambda>c names. if names = [''https://example.com/bad.tar''] then ([], Some ''download failed'')
                  else (map OciLayoutPackage names, None))
       (\<lambda>c policy names. (map Image names, None))"

definition ex_fetcher_deps :: FetcherDeps where
  "ex_fetcher_deps =
     \<lparr> Getwd = Inr ''/work'',
       GetLocatorType =
         (\<lambda>name wd. if prefix ''https://'' name \<or> prefix ''http://'' name \<or> prefix ''file://'' name
                     then URILocator
                     else if prefix ''/'' name then FilepathLocator else ImageLocator),
       LocatorType_String =
         (\<lambda>l. case l of URILocator \<Rightarrow> ''URILocator'' | FilepathLocator \<Rightarrow> ''FilepathLocator''
                 | ImageLocator \<Rightarrow> ''ImageLocator'' | InvalidLocator \<Rightarrow> ''InvalidLocator''),
       fetch_IsPrint = (\<lambda>r. True) \<rparr>"

definition ex_config :: FetcherConfig where
  "ex_config = \<lparr> ctx = Background, imagePullPolicy = PullIfNotPresent, workingDir = ''/work'' \<rparr>"

section \<open>Properties\<close>

text \<open>
  Claim C9. The writer's state machine: \<^verbatim>\<open>Open\<close> on an open writer returns the
  state error and changes neither the writer nor the file system; \<^verbatim>\<open>Close\<close> on a
  writer that is not open returns the state error; a \<^verbatim>\<open>Close\<close> that succeeds was
  called on an open writer, removes the workspace directory and everything below it,
  leaves every other path as it was, and leaves the writer unopened; \<^verbatim>\<open>Write\<close> on a
  writer that is not open returns an error and makes no call on the target.
\<close>

theorem writer_state_machine:
  "(tmpDir lw \<noteq> [] \<longrightarrow>
      Open lw os = (Some (New ''unable to open writer: writer already open''), lw, os))
   \<and> (tmpDir lw = [] \<longrightarrow>
      Close lw os = (Some (New ''unable to close writer: writer is not open''), lw, os))
   \<and> (Close lw os = (None, lw', os') \<longrightarrow>
        tmpDir lw \<noteq> [] \<and> lw' = lw\<lparr> tmpDir := [] \<rparr>
        \<and> (\<forall>p. fs os' p = (if within (tmpDir lw) p then None else fs os p)))
   \<and> (tmpDir lw = [] \<longrightarrow>
      Write deps lw w os = (Some (New ''AssetWriter must be opened before writing''), lw, w, os))"
  by (auto simp: Open_def Close_def Write_def os_RemoveAll_def split: if_splits option.splits)

theorem writer_state_machine_witness:
  "tmpDir ex_open_writer \<noteq> []
   \<and> Open ex_open_writer ex_open_os
       = (Some (New ''unable to open writer: writer already open''), ex_open_writer, ex_open_os)
   \<and> tmpDir (NewLayerWriter ex_twf) = []
   \<and> Close (NewLayerWriter ex_twf) ex_open_os
       = (Some (New ''unable to close writer: writer is not open''), NewLayerWriter ex_twf, ex_open_os)
   \<and> Close ex_open_writer ex_open_os
       = (None, NewLayerWriter ex_twf, ex_os\<lparr> fs := [''/tmp/other'' \<mapsto> Dir] \<rparr>)
   \<and> Write ex_deps (NewLayerWriter ex_twf) ex_target ex_open_os
       = (Some (New ''AssetWriter must be opened before writing''), NewLayerWriter ex_twf, ex_target, ex_open_os)"
proof -
  let ?os' = "snd (snd (Close ex_open_writer ex_open_os))"
  let ?lw' = "fst (snd (Close ex_open_writer ex_open_os))"
  have c: "Close ex_open_writer ex_open_os = (None, ?lw', ?os')"
    by (simp add: Close_def ex_open_writer_def ex_open_os_def ex_os_def os_RemoveAll_def)
  have o: "tmpDir ex_open_writer \<noteq> []" by (simp add: ex_open_writer_def)
  have n: "tmpDir (NewLayerWriter ex_twf) = []" by (simp add: NewLayerWriter_def)
  note m1 = writer_state_machine [of ex_open_writer ex_open_os ?lw' ?os' ex_deps ex_target]
  note m2 = writer_state_machine [of "NewLayerWriter ex_twf" ex_open_os ?lw' ?os' ex_deps ex_target]
  have p1: "Open ex_open_writer ex_open_os
       = (Some (New ''unable to open writer: writer already open''), ex_open_writer, ex_open_os)"
    using m1 o by blast
  have p2: "Close (NewLayerWriter ex_twf) ex_open_os
       = (Some (New ''unable to close writer: writer is not open''), NewLayerWriter ex_twf, ex_open_os)"
    using m2 n by blast
  have p4: "Write ex_deps (NewLayerWriter ex_twf) ex_target ex_open_os
       = (Some (New ''AssetWriter must be opened before writing''), NewLayerWriter ex_twf, ex_target, ex_open_os)"
    using m2 n by blast
  have p3: "?lw' = ex_open_writer\<lparr> tmpDir := [] \<rparr>
        \<and> (\<forall>p. fs ?os' p = (if within (tmpDir ex_open_writer) p then None else fs ex_open_os p))"
    using m1 c by blast
  have q: "Close ex_open_writer ex_open_os
       = (None, NewLayerWriter ex_twf, ex_os\<lparr> fs := [''/tmp/other'' \<mapsto> Dir] \<rparr>)"
    by (simp add: Close_def ex_open_writer_def ex_open_os_def ex_os_def os_RemoveAll_def
          NewLayerWriter_def within_def fun_eq_iff)
  from o p1 n p2 p3 q p4 show ?thesis by blast
qed

text \<open>
  Claim C10. A new writer that was opened, and to which no blob was added, writes
  successfully when the target accepts the label: no layer is added, and the one call
  on the target sets the label \<^verbatim>\<open>io.buildpacks.asset.layers\<close> to the JSON of the
  empty \<^verbatim>\<open>AssetMap\<close>.
\<close>

theorem write_without_blobs:
  assumes "Open (NewLayerWriter twf) os0 = (None, lw, os1)"
    and "w_answer w (w_calls w) (SetLabelCall LayersLabel (json_Marshal deps Map.empty)) = None"
  shows "Write deps lw w os
           = (None, lw,
              w\<lparr> w_calls := w_calls w
                    @ [SetLabelCall ''io.buildpacks.asset.layers'' (json_Marshal deps Map.empty)] \<rparr>,
              os)"
  using assms
  by (auto simp: Open_def NewLayerWriter_def ioutil_TempDir_def Write_def dist_SetLabel_def
        SetLabel_def w_call_def LayersLabel_def Let_def split: sum.splits)

theorem write_without_blobs_witness:
  "Open (NewLayerWriter ex_twf) ex_os = (None, ex_open_writer, ex_os\<lparr> fs := [''/tmp/writer-workspace123'' \<mapsto> Dir] \<rparr>)
   \<and> w_answer ex_target (w_calls ex_target) (SetLabelCall LayersLabel (json_Marshal ex_deps Map.empty)) = None
   \<and> Write ex_deps ex_open_writer ex_target ex_open_os
       = (None, ex_open_writer,
          ex_target\<lparr> w_calls := [SetLabelCall ''io.buildpacks.asset.layers'' ''{}''] \<rparr>, ex_open_os)"
proof -
  have a: "Open (NewLayerWriter ex_twf) ex_os = (None, ex_open_writer, ex_os\<lparr> fs := [''/tmp/writer-workspace123'' \<mapsto> Dir] \<rparr>)"
    by (simp add: Open_def NewLayerWriter_def ioutil_TempDir_def ex_os_def ex_open_writer_def Let_def)
  have b: "w_answer ex_target (w_calls ex_target) (SetLabelCall LayersLabel (json_Marshal ex_deps Map.empty)) = None"
    by (simp add: ex_target_def)
  have c: "json_Marshal ex_deps Map.empty = ''{}''" by (simp add: ex_deps_def)
  have d: "w_calls ex_target = []" by (simp add: ex_target_def)
  from write_without_blobs [OF a b, of ex_open_os] a b show ?thesis
    unfolding c d by simp
qed

subsection \<open>The metadata map and the blobs\<close>

lemma last_with_Nil [simp]: "last_with k [] = None"
  by (simp add: last_with_def)

lemma last_with_snoc [simp]:
  "last_with k (bs @ [b]) = (if sha_of b = k then Some b else last_with k bs)"
  by (simp add: last_with_def)

lemma last_with_append:
  "last_with k (xs @ ys) = (case last_with k ys of None \<Rightarrow> last_with k xs | Some b \<Rightarrow> Some b)"
  by (induction ys rule: rev_induct) (simp_all flip: append_assoc)

lemma last_with_None_iff: "last_with k bs = None \<longleftrightarrow> k \<notin> sha_of ` set bs"
  by (auto simp: last_with_def find_None_iff)

lemma last_with_Some: "last_with k bs = Some b \<Longrightarrow> b \<in> set bs \<and> sha_of b = k"
  by (induction bs rule: rev_induct) (auto split: if_splits)

lemma last_with_distinct:
  "distinct (map sha_of bs) \<Longrightarrow> b \<in> set bs \<Longrightarrow> last_with (sha_of b) bs = Some b"
proof (induction bs rule: rev_induct)
  case Nil
  then show ?case by simp
next
  case (snoc x xs)
  then show ?case by (auto simp: image_iff)
qed

lemma os_OpenFile_fields:
  "os_OpenFile os name = (e, os1) \<Longrightarrow>
     WriteFile_error os1 = WriteFile_error os \<and> OpenFile_error os1 = OpenFile_error os
     \<and> TempDir_result os1 = TempDir_result os \<and> RemoveAll_error os1 = RemoveAll_error os"
  by (auto simp: os_OpenFile_def split: option.splits if_splits)

lemma os_OpenFile_None:
  "os_OpenFile os name = (None, os1) \<Longrightarrow> os1 = os\<lparr> fs := (fs os)(name \<mapsto> File []) \<rparr>"
  by (auto simp: os_OpenFile_def split: option.splits if_splits)

lemma createAssetLayerFile_Inr:
  assumes "createAssetLayerFile deps f r os = (Inr d, os')"
  shows "snd r = None \<and> d = hex_EncodeToString (sha256_Sum deps (fst r))
       \<and> layer_file_writable os f (fst r) \<and> os' = os\<lparr> fs := (fs os)(f \<mapsto> File (fst r)) \<rparr>"
proof -
  obtain e os1 where o: "os_OpenFile os f = (e, os1)" by (cases "os_OpenFile os f")
  with assms have e: "e = None" by (cases e) (simp_all add: createAssetLayerFile_def)
  note os1 = os_OpenFile_None [OF o [unfolded e]]
  from assms o e os1 show ?thesis
    by (cases r)
       (auto simp: createAssetLayerFile_def layer_file_writable_def Let_def
          split: option.splits if_splits)
qed

lemma Write_loop_success:
  "Write_loop deps tmp twf bs md w os = (None, md', w', os') \<Longrightarrow>
     w_calls w' = w_calls w
        @ map (\<lambda>b. AddLayerCall (filepath_Join [tmp, sha_of b]) (layerDiffID_of deps twf b)) bs
     \<and> w_answer w' = w_answer w
     \<and> md' = fold (record_diffID deps twf) bs md
     \<and> (\<forall>b\<in>set bs. snd (assetLayerReader deps twf b) = None)"
proof (induction bs arbitrary: md w os)
  case Nil
  then show ?case by simp
next
  case (Cons b bs)
  let ?f = "filepath_Join [tmp, sha_of b]"
  obtain r os1 where c: "createAssetLayerFile deps ?f (assetLayerReader deps twf b) os = (r, os1)"
    by (cases "createAssetLayerFile deps ?f (assetLayerReader deps twf b) os")
  from Cons.prems c obtain d where r: "r = Inr d"
    by (cases r) (simp_all add: Let_def)
  note cf = createAssetLayerFile_Inr [OF c [unfolded r]]
  have d: "''sha256:'' @ d = layerDiffID_of deps twf b"
    using cf by (simp add: layerDiffID_of_def)
  obtain e w1 where a: "AddLayerWithDiffID w ?f (''sha256:'' @ d) = (e, w1)"
    by (cases "AddLayerWithDiffID w ?f (''sha256:'' @ d)")
  from Cons.prems c r a have e: "e = None"
    by (cases e) (simp_all add: Let_def)
  from a have w1: "w_calls w1 = w_calls w @ [AddLayerCall ?f (''sha256:'' @ d)]" "w_answer w1 = w_answer w"
    by (auto simp: AddLayerWithDiffID_def w_call_def)
  from Cons.prems c r a e obtain m where m: "md (sha_of b) = Some m"
    by (cases "md (sha_of b)") (simp_all add: Let_def)
  from Cons.prems c r a e m
  have rest: "Write_loop deps tmp twf bs (md(sha_of b \<mapsto> m\<lparr> LayerDiffID := ''sha256:'' @ d \<rparr>)) w1 os1
                = (None, md', w', os')"
    by (simp add: Let_def)
  have step: "md(sha_of b \<mapsto> m\<lparr> LayerDiffID := ''sha256:'' @ d \<rparr>) = record_diffID deps twf b md"
    using m d by (simp add: record_diffID_def)
  from rest have rest': "Write_loop deps tmp twf bs (record_diffID deps twf b md) w1 os1
                = (None, md', w', os')"
    unfolding step .
  have w1': "w_calls w1 = w_calls w @ [AddLayerCall ?f (layerDiffID_of deps twf b)]"
    using w1(1) unfolding d .
  have r0: "snd (assetLayerReader deps twf b) = None" using cf by blast
  from Cons.IH [OF rest'] w1' w1(2) r0 show ?case by simp
qed

lemma Write_loop_success_files:
  "Write_loop deps tmp twf bs md w os = (None, md', w', os') \<Longrightarrow>
     os' = os\<lparr> fs := fold (store_layer deps tmp twf) bs (fs os) \<rparr>
     \<and> (\<forall>b\<in>set bs. \<exists>files.
            layer_file_writable (os\<lparr> fs := files \<rparr>) (filepath_Join [tmp, sha_of b])
              (fst (assetLayerReader deps twf b)))"
proof (induction bs arbitrary: md w os)
  case Nil
  then show ?case by simp
next
  case (Cons b bs)
  let ?f = "filepath_Join [tmp, sha_of b]"
  obtain r os1 where c: "createAssetLayerFile deps ?f (assetLayerReader deps twf b) os = (r, os1)"
    by (cases "createAssetLayerFile deps ?f (assetLayerReader deps twf b) os")
  from Cons.prems c obtain d where r: "r = Inr d"
    by (cases r) (simp_all add: Let_def)
  note cf = createAssetLayerFile_Inr [OF c [unfolded r]]
  have os1: "os1 = os\<lparr> fs := store_layer deps tmp twf b (fs os) \<rparr>"
    using cf by (simp add: store_layer_def)
  obtain e w1 where a: "AddLayerWithDiffID w ?f (''sha256:'' @ d) = (e, w1)"
    by (cases "AddLayerWithDiffID w ?f (''sha256:'' @ d)")
  from Cons.prems c r a have e: "e = None"
    by (cases e) (simp_all add: Let_def)
  from Cons.prems c r a e obtain m where m: "md (sha_of b) = Some m"
    by (cases "md (sha_of b)") (simp_all add: Let_def)
  from Cons.prems c r a e m
  have rest: "Write_loop deps tmp twf bs (md(sha_of b \<mapsto> m\<lparr> LayerDiffID := ''sha256:'' @ d \<rparr>)) w1 os1
                = (None, md', w', os')"
    by (simp add: Let_def)
  note ih = Cons.IH [OF rest]
  have here: "\<exists>files. layer_file_writable (os\<lparr> fs := files \<rparr>) ?f (fst (assetLayerReader deps twf b))"
    using cf by (intro exI [of _ "fs os"]) simp
  have later: "\<exists>files. layer_file_writable (os\<lparr> fs := files \<rparr>) (filepath_Join [tmp, sha_of x])
              (fst (assetLayerReader deps twf x))" if "x \<in> set bs" for x
    using ih that unfolding os1 by auto
  from ih here later show ?case
    unfolding os1 by auto
qed

lemma fold_record_diffID:
  "fold (record_diffID deps twf) bs md k =
     (case last_with k bs of
        None \<Rightarrow> md k
      | Some b \<Rightarrow> map_option (\<lambda>m. m\<lparr> LayerDiffID := layerDiffID_of deps twf b \<rparr>) (md k))"
proof (induction bs rule: rev_induct)
  case Nil
  then show ?case by simp
next
  case (snoc x xs)
  then show ?case
    by (auto simp: record_diffID_def split: option.splits)
qed

lemma fold_provisional:
  "fold (\<lambda>b md. md(sha_of b \<mapsto> ToAssetValue (AssetDescriptor b) [])) bs md k =
     (case last_with k bs of
        None \<Rightarrow> md k
      | Some b \<Rightarrow> Some (ToAssetValue (AssetDescriptor b) []))"
  by (induction bs rule: rev_induct) (auto split: option.splits)

lemma ToAssetValue_update [simp]:
  "(ToAssetValue a d)\<lparr> LayerDiffID := d' \<rparr> = ToAssetValue a d'"
  by (simp add: ToAssetValue_def)

lemma LayerDiffID_same: "\<exists>d. v = v\<lparr> LayerDiffID := d \<rparr>"
  by (rule exI [of _ "LayerDiffID v"]) simp

lemma Write_loop_identity:
  "Write_loop deps tmp twf bs md w os = (e, md', w', os') \<Longrightarrow>
     (md k = None \<longrightarrow> md' k = None)
     \<and> (\<forall>v. md k = Some v \<longrightarrow> (\<exists>d. md' k = Some (v\<lparr> LayerDiffID := d \<rparr>)))"
proof (induction bs arbitrary: md w os)
  case Nil
  then show ?case using LayerDiffID_same by auto
next
  case (Cons b bs)
  show ?case
  proof (cases "\<exists>m d w1 os1. Write_loop deps tmp twf bs (md(sha_of b \<mapsto> m\<lparr> LayerDiffID := d \<rparr>)) w1 os1
                = (e, md', w', os') \<and> md (sha_of b) = Some m")
    case True
    then obtain m d w1 os1 where
      rest: "Write_loop deps tmp twf bs (md(sha_of b \<mapsto> m\<lparr> LayerDiffID := d \<rparr>)) w1 os1 = (e, md', w', os')"
      and m: "md (sha_of b) = Some m" by blast
    from Cons.IH [OF rest] m show ?thesis
      by (cases "k = sha_of b") auto
  next
    case False
    with Cons.prems have "md' = md"
      by (auto simp: Let_def split: prod.splits sum.splits option.splits)
    then show ?thesis using LayerDiffID_same by auto
  qed
qed

lemma consistent_new: "consistent (NewLayerWriter twf)"
  by (simp add: consistent_def NewLayerWriter_def)

lemma consistent_add:
  assumes "consistent lw"
  shows "consistent (AddAssetBlobs lw aBlobs)"
  unfolding consistent_def
proof
  fix k
  from assms have c: "case last_with k (blobs lw) of
            None \<Rightarrow> metadata lw k = None
          | Some b \<Rightarrow> (\<exists>d. metadata lw k = Some (ToAssetValue (AssetDescriptor b) d))"
    by (simp add: consistent_def)
  then show "case last_with k (blobs (AddAssetBlobs lw aBlobs)) of
            None \<Rightarrow> metadata (AddAssetBlobs lw aBlobs) k = None
          | Some b \<Rightarrow> (\<exists>d. metadata (AddAssetBlobs lw aBlobs) k
                                 = Some (ToAssetValue (AssetDescriptor b) d))"
    by (auto simp: AddAssetBlobs_def fold_provisional last_with_append split: option.splits)
qed

lemma consistent_fields:
  "blobs lw' = blobs lw \<Longrightarrow> metadata lw' = metadata lw \<Longrightarrow> consistent lw \<Longrightarrow> consistent lw'"
  unfolding consistent_def by presburger

lemma Open_fields: "Open lw os = (e, lw', os') \<Longrightarrow> blobs lw' = blobs lw \<and> metadata lw' = metadata lw"
  by (auto simp: Open_def split: if_splits prod.splits sum.splits)

lemma Close_fields: "Close lw os = (e, lw', os') \<Longrightarrow> blobs lw' = blobs lw \<and> metadata lw' = metadata lw"
  by (auto simp: Close_def split: if_splits prod.splits option.splits)

lemma Write_cases:
  assumes "Write deps lw w os = (e, lw', w', os')"
  shows "(lw' = lw \<and> tmpDir lw = [])
       \<or> (\<exists>e1 md w1. tmpDir lw \<noteq> [] \<and>
            Write_loop deps (tmpDir lw) (writerFactory lw) (blobs lw) (metadata lw) w os = (e1, md, w1, os')
            \<and> lw' = lw\<lparr> metadata := md \<rparr>)"
  using assms by (auto simp: Write_def split: if_splits prod.splits option.splits)

lemma consistent_write:
  assumes "consistent lw" and "Write deps lw w os = (e, lw', w', os')"
  shows "consistent lw'"
proof -
  from Write_cases [OF assms(2)] show ?thesis
  proof
    assume "lw' = lw \<and> tmpDir lw = []" with assms(1) show ?thesis by simp
  next
    assume "\<exists>e1 md w1. tmpDir lw \<noteq> [] \<and>
            Write_loop deps (tmpDir lw) (writerFactory lw) (blobs lw) (metadata lw) w os = (e1, md, w1, os')
            \<and> lw' = lw\<lparr> metadata := md \<rparr>"
    then obtain e1 md w1 where
      l: "Write_loop deps (tmpDir lw) (writerFactory lw) (blobs lw) (metadata lw) w os = (e1, md, w1, os')"
      and lw': "lw' = lw\<lparr> metadata := md \<rparr>" by blast
    show ?thesis unfolding consistent_def
    proof
      fix k
      from assms(1) have c: "case last_with k (blobs lw) of
            None \<Rightarrow> metadata lw k = None
          | Some b \<Rightarrow> (\<exists>d. metadata lw k = Some (ToAssetValue (AssetDescriptor b) d))"
        by (simp add: consistent_def)
      from Write_loop_identity [OF l, of k] c lw'
      show "case last_with k (blobs lw') of
            None \<Rightarrow> metadata lw' k = None
          | Some b \<Rightarrow> (\<exists>d. metadata lw' k = Some (ToAssetValue (AssetDescriptor b) d))"
        by (auto split: option.splits)
    qed
  qed
qed

lemma untampered_consistent: "untampered lw \<Longrightarrow> consistent lw"
proof (induction rule: untampered.induct)
  case (new twf)
  then show ?case by (rule consistent_new)
next
  case (add lw aBlobs)
  then show ?case by (simp add: consistent_add)
next
  case (opened lw os err lw' os')
  then show ?case using Open_fields consistent_fields by blast
next
  case (closed lw os err lw' os')
  then show ?case using Close_fields consistent_fields by blast
next
  case (written lw deps w os err lw' w' os')
  then show ?case using consistent_write by blast
qed

lemma Write_loop_Cons_cases:
  assumes "Write_loop deps tmp twf (b # bs) md w os = (e, md', w', os')"
  shows "(\<exists>e' m. e = Some (Wrapf e' m) \<and> md' = md
            \<and> (w_calls w' = w_calls w \<or> (\<exists>p d. w_calls w' = w_calls w @ [AddLayerCall p d])))
       \<or> (md (sha_of b) = None \<and> md' = md \<and> (\<exists>p d. w_calls w' = w_calls w @ [AddLayerCall p d])
            \<and> e = Some (Errorf (''unknown sha256 asset value '' @ sha_of b)))
       \<or> (\<exists>m d p w1 os1. md (sha_of b) = Some m
            \<and> w_calls w1 = w_calls w @ [AddLayerCall p d]
            \<and> (\<forall>x. BlobOpen b \<noteq> Inl x)
            \<and> Write_loop deps tmp twf bs (md(sha_of b \<mapsto> m\<lparr> LayerDiffID := d \<rparr>)) w1 os1
                 = (e, md', w', os'))"
proof -
  let ?f = "filepath_Join [tmp, sha_of b]"
  obtain r os1 where c: "createAssetLayerFile deps ?f (assetLayerReader deps twf b) os = (r, os1)"
    by (cases "createAssetLayerFile deps ?f (assetLayerReader deps twf b) os")
  show ?thesis
  proof (cases r)
    case (Inl err)
    with assms c show ?thesis by (auto simp: Let_def)
  next
    case (Inr d)
    obtain ea w1 where a: "AddLayerWithDiffID w ?f (''sha256:'' @ d) = (ea, w1)"
      by (cases "AddLayerWithDiffID w ?f (''sha256:'' @ d)")
    then have w1: "w_calls w1 = w_calls w @ [AddLayerCall ?f (''sha256:'' @ d)]"
      by (auto simp: AddLayerWithDiffID_def w_call_def)
    have nofail: "\<forall>x. BlobOpen b \<noteq> Inl x"
      using createAssetLayerFile_Inr [OF c [unfolded Inr]]
      by (auto simp: assetLayerReader_def GenerateTarWithWriter_def toAssetTar_def Let_def
            split: prod.splits option.splits sum.splits)
    show ?thesis
    proof (cases ea)
      case (Some err)
      with assms c Inr a w1 show ?thesis by (auto simp: Let_def)
    next
      case None
      show ?thesis
      proof (cases "md (sha_of b)")
        case N: None
        with assms c Inr a None w1 show ?thesis by (auto simp: Let_def)
      next
        case (Some m)
        with assms c Inr a None
        have "Write_loop deps tmp twf bs (md(sha_of b \<mapsto> m\<lparr> LayerDiffID := ''sha256:'' @ d \<rparr>)) w1 os1
                 = (e, md', w', os')"
          by (simp add: Let_def)
        with Some w1 nofail show ?thesis by blast
      qed
    qed
  qed
qed

lemma Write_loop_error_wrapped:
  "\<forall>b\<in>set bs. md (sha_of b) \<noteq> None \<Longrightarrow>
   Write_loop deps tmp twf bs md w os = (Some e, md', w', os') \<Longrightarrow> \<exists>e' m. e = Wrapf e' m"
proof (induction bs arbitrary: md w os)
  case Nil
  then show ?case by simp
next
  case (Cons b bs)
  from Write_loop_Cons_cases [OF Cons.prems(2)] Cons.prems(1)
  consider "\<exists>e' m. e = Wrapf e' m"
    | m d w1 os1 where "Write_loop deps tmp twf bs (md(sha_of b \<mapsto> m\<lparr> LayerDiffID := d \<rparr>)) w1 os1
                 = (Some e, md', w', os')"
    by auto
  then show ?case
  proof cases
    case 1
    then show ?thesis .
  next
    case 2
    from Cons.prems(1)
    have "\<forall>x\<in>set bs. (md(sha_of b \<mapsto> m\<lparr> LayerDiffID := d \<rparr>)) (sha_of x) \<noteq> None"
      by simp
    from Cons.IH [OF this 2] show ?thesis .
  qed
qed

lemma consistent_lookup:
  "consistent lw \<Longrightarrow> b \<in> set (blobs lw) \<Longrightarrow> metadata lw (sha_of b) \<noteq> None"
proof -
  assume c: "consistent lw" and b: "b \<in> set (blobs lw)"
  from b have "last_with (sha_of b) (blobs lw) \<noteq> None"
    by (simp add: last_with_None_iff)
  then obtain x where x: "last_with (sha_of b) (blobs lw) = Some x" by blast
  from c have "case last_with (sha_of b) (blobs lw) of
            None \<Rightarrow> metadata lw (sha_of b) = None
          | Some x \<Rightarrow> (\<exists>d. metadata lw (sha_of b) = Some (ToAssetValue (AssetDescriptor x) d))"
    unfolding consistent_def by blast
  with x show ?thesis by auto
qed

lemma Write_error_not_Errorf:
  assumes "consistent lw" and "fst (Write deps lw w os) = Some e"
  shows "e \<noteq> Errorf s"
proof -
  obtain lw' w' os' where wr: "Write deps lw w os = (Some e, lw', w', os')"
    using assms(2) by (cases "Write deps lw w os") auto
  show ?thesis
  proof (cases "tmpDir lw = []")
    case True
    with wr show ?thesis by (auto simp: Write_def)
  next
    case False
    obtain e1 md w1 os1 where
      l: "Write_loop deps (tmpDir lw) (writerFactory lw) (blobs lw) (metadata lw) w os = (e1, md, w1, os1)"
      by (cases "Write_loop deps (tmpDir lw) (writerFactory lw) (blobs lw) (metadata lw) w os")
    show ?thesis
    proof (cases e1)
      case None
      with wr l False show ?thesis
        by (auto simp: Write_def dist_SetLabel_def split: prod.splits option.splits)
    next
      case (Some e2)
      with wr l False have "e = e2" by (auto simp: Write_def)
      moreover have "\<forall>b\<in>set (blobs lw). metadata lw (sha_of b) \<noteq> None"
        using consistent_lookup [OF assms(1)] by blast
      ultimately show ?thesis
        using Write_loop_error_wrapped [of "blobs lw" "metadata lw"] l Some by blast
    qed
  qed
qed

lemma untampered_reachable: "untampered lw \<Longrightarrow> reachable lw"
  by (induction rule: untampered.induct) (auto intro: reachable.intros)

text \<open>
  Claim C8, as the code has it. In a writer obtained from \<^verbatim>\<open>NewLayerWriter\<close> by the
  methods of the interface, so that its blobs were added by \<^verbatim>\<open>AddAssetBlobs\<close> only,
  and whose metadata map no caller has changed through the map that \<^verbatim>\<open>AssetMetadata\<close>
  hands out, the metadata map has an entry for the declared hash of every blob, and
  \<^verbatim>\<open>Write\<close> never returns the error of the branch \<^verbatim>\<open>unknown sha256 asset value\<close>.
\<close>

theorem unknown_sha_unreachable:
  assumes "untampered lw"
  shows "(\<forall>b\<in>set (blobs lw). metadata lw (Sha256 (AssetDescriptor b)) \<noteq> None)
       \<and> (\<forall>s. fst (Write deps lw w os) \<noteq> Some (Errorf (''unknown sha256 asset value '' @ s)))"
  using assms untampered_consistent consistent_lookup Write_error_not_Errorf by blast

lemma ex_new_open_eq: "ex_new_open = ex_open_writer"
  by (simp add: ex_new_open_def Open_def NewLayerWriter_def ioutil_TempDir_def ex_os_def
        ex_open_writer_def Let_def)

lemma ex_new_open_untampered: "untampered ex_new_open"
proof -
  have "Open (NewLayerWriter ex_twf) ex_os
          = (fst (Open (NewLayerWriter ex_twf) ex_os), ex_new_open,
             snd (snd (Open (NewLayerWriter ex_twf) ex_os)))"
    by (simp add: ex_new_open_def)
  then show ?thesis using untampered.new untampered.opened by blast
qed

theorem unknown_sha_unreachable_witness:
  "untampered (AddAssetBlobs ex_new_open [firstAssetBlob, secondAssetBlob])
   \<and> secondAssetBlob \<in> set (blobs (AddAssetBlobs ex_new_open [firstAssetBlob, secondAssetBlob]))
   \<and> metadata (AddAssetBlobs ex_new_open [firstAssetBlob, secondAssetBlob]) ''second-sha256'' \<noteq> None
   \<and> fst (Write ex_deps (AddAssetBlobs ex_new_open [firstAssetBlob, secondAssetBlob]) ex_target ex_open_os)
       \<noteq> Some (Errorf ''unknown sha256 asset value second-sha256'')"
proof -
  let ?lw = "AddAssetBlobs ex_new_open [firstAssetBlob, secondAssetBlob]"
  have r: "untampered ?lw" using ex_new_open_untampered by (rule untampered.add)
  have b: "secondAssetBlob \<in> set (blobs ?lw)" by (simp add: AddAssetBlobs_def)
  have s: "Sha256 (AssetDescriptor secondAssetBlob) = ''second-sha256''"
    by (simp add: secondAssetBlob_def secondAsset_def)
  note u = unknown_sha_unreachable [OF r, of ex_deps ex_target ex_open_os]
  from u b have "metadata ?lw (Sha256 (AssetDescriptor secondAssetBlob)) \<noteq> None" by blast
  then have m: "metadata ?lw ''second-sha256'' \<noteq> None" unfolding s .
  from u have "fst (Write ex_deps ?lw ex_target ex_open_os)
       \<noteq> Some (Errorf (''unknown sha256 asset value '' @ ''second-sha256''))" by blast
  then have e: "fst (Write ex_deps ?lw ex_target ex_open_os)
       \<noteq> Some (Errorf ''unknown sha256 asset value second-sha256'')" by simp
  from r b m e show ?thesis by blast
qed

subsection \<open>A successful \<^verbatim>\<open>Write\<close>\<close>

lemma Write_success:
  assumes "Write deps lw w os = (None, lw', w', os')"
  shows "tmpDir lw \<noteq> [] \<and> lw' = lw\<lparr> metadata := metadata lw' \<rparr>
       \<and> (\<exists>w1. Write_loop deps (tmpDir lw) (writerFactory lw) (blobs lw) (metadata lw) w os
                   = (None, metadata lw', w1, os')
               \<and> w_calls w' = w_calls w1 @ [SetLabelCall LayersLabel (json_Marshal deps (metadata lw'))])"
  using assms
  by (auto simp: Write_def dist_SetLabel_def SetLabel_def w_call_def
        split: if_splits prod.splits option.splits)

lemma Write_success_calls:
  assumes "Write deps lw w os = (None, lw', w', os')"
  shows "w_calls w' = w_calls w
           @ map (\<lambda>b. AddLayerCall (filepath_Join [tmpDir lw, sha_of b])
                        (layerDiffID_of deps (writerFactory lw) b)) (blobs lw)
           @ [SetLabelCall LayersLabel (json_Marshal deps (metadata lw'))]"
proof -
  from Write_success [OF assms] obtain w1 where
    l: "Write_loop deps (tmpDir lw) (writerFactory lw) (blobs lw) (metadata lw) w os
          = (None, metadata lw', w1, os')"
    and c: "w_calls w' = w_calls w1 @ [SetLabelCall LayersLabel (json_Marshal deps (metadata lw'))]"
    by blast
  from Write_loop_success [OF l] c show ?thesis by simp
qed

lemma Write_success_metadata:
  assumes "consistent lw" and "Write deps lw w os = (None, lw', w', os')"
  shows "metadata lw' k =
           map_option (\<lambda>b. ToAssetValue (AssetDescriptor b) (layerDiffID_of deps (writerFactory lw) b))
             (last_with k (blobs lw))"
proof -
  from Write_success [OF assms(2)] obtain w1 where
    l: "Write_loop deps (tmpDir lw) (writerFactory lw) (blobs lw) (metadata lw) w os
          = (None, metadata lw', w1, os')"
    by blast
  from Write_loop_success [OF l]
  have m: "metadata lw' = fold (record_diffID deps (writerFactory lw)) (blobs lw) (metadata lw)"
    by blast
  from assms(1) have c: "case last_with k (blobs lw) of
            None \<Rightarrow> metadata lw k = None
          | Some b \<Rightarrow> (\<exists>d. metadata lw k = Some (ToAssetValue (AssetDescriptor b) d))"
    unfolding consistent_def by blast
  show ?thesis
  proof (cases "last_with k (blobs lw)")
    case None
    with c m show ?thesis by (simp add: fold_record_diffID)
  next
    case (Some b)
    with c obtain d where "metadata lw k = Some (ToAssetValue (AssetDescriptor b) d)" by auto
    with Some m show ?thesis by (simp add: fold_record_diffID)
  qed
qed

lemma Write_success_streams:
  assumes "Write deps lw w os = (None, lw', w', os')" and "b \<in> set (blobs lw)"
  shows "snd (assetLayerReader deps (writerFactory lw) b) = None"
proof -
  from Write_success [OF assms(1)] obtain w1 where
    l: "Write_loop deps (tmpDir lw) (writerFactory lw) (blobs lw) (metadata lw) w os
          = (None, metadata lw', w1, os')"
    by blast
  from Write_loop_success [OF l] assms(2) show ?thesis by blast
qed

lemma Write_success_dom:
  assumes "consistent lw" and "Write deps lw w os = (None, lw', w', os')"
  shows "dom (metadata lw') = sha_of ` set (blobs lw)"
proof -
  have "\<And>k. k \<in> dom (metadata lw') \<longleftrightarrow> k \<in> sha_of ` set (blobs lw)"
    using last_with_None_iff [of _ "blobs lw"]
    by (auto simp: Write_success_metadata [OF assms] dom_def)
  then show ?thesis by blast
qed

text \<open>
  Claim C1. Let the blobs of a writer, all added by \<^verbatim>\<open>AddAssetBlobs\<close>, be a non-empty
  sequence with pairwise distinct declared hashes, the metadata map of the writer having
  been changed by its own methods only. When \<^verbatim>\<open>Write\<close> succeeds, the calls it
  made on the target are one \<^verbatim>\<open>AddLayerWithDiffID\<close> for each blob, in order, and then
  the label; the metadata map has as many entries as there are blobs; and the entry of
  each blob carries as diff-id the tag \<^verbatim>\<open>sha256:\<close> and the hexadecimal digest of the
  bytes of the layer of the blob, whose stream ended without error. Those bytes are what
  was written: the file system after \<^verbatim>\<open>Write\<close> is the one before it with, for each
  blob in order, the layer file of the blob holding the bytes of its layer.
\<close>

theorem write_distinct_hashes:
  assumes "untampered lw"
    and "blobs lw \<noteq> []"
    and "distinct (map (\<lambda>b. Sha256 (AssetDescriptor b)) (blobs lw))"
    and "Write deps lw w os = (None, lw', w', os')"
  shows "w_calls w' = w_calls w
           @ map (\<lambda>b. AddLayerCall (filepath_Join [tmpDir lw, Sha256 (AssetDescriptor b)])
                        (layerDiffID_of deps (writerFactory lw) b)) (blobs lw)
           @ [SetLabelCall LayersLabel (json_Marshal deps (metadata lw'))]
       \<and> card (dom (metadata lw')) = length (blobs lw)
       \<and> (\<forall>b\<in>set (blobs lw).
            \<exists>v. metadata lw' (Sha256 (AssetDescriptor b)) = Some v
              \<and> LayerDiffID v
                  = ''sha256:'' @ hex_EncodeToString
                      (sha256_Sum deps (fst (assetLayerReader deps (writerFactory lw) b)))
              \<and> snd (assetLayerReader deps (writerFactory lw) b) = None)
       \<and> os' = os\<lparr> fs := fold (store_layer deps (tmpDir lw) (writerFactory lw)) (blobs lw) (fs os) \<rparr>"
proof -
  have c: "consistent lw" using assms(1) by (rule untampered_consistent)
  have files: "os' = os\<lparr> fs := fold (store_layer deps (tmpDir lw) (writerFactory lw)) (blobs lw) (fs os) \<rparr>"
    using Write_success [OF assms(4)] Write_loop_success_files by blast
  have "card (sha_of ` set (blobs lw)) = length (blobs lw)"
    using assms(3) distinct_card [of "map sha_of (blobs lw)"] by simp
  then have card: "card (dom (metadata lw')) = length (blobs lw)"
    by (simp add: Write_success_dom [OF c assms(4)])
  have each: "\<exists>v. metadata lw' (sha_of b) = Some v
              \<and> LayerDiffID v
                  = ''sha256:'' @ hex_EncodeToString
                      (sha256_Sum deps (fst (assetLayerReader deps (writerFactory lw) b)))
              \<and> snd (assetLayerReader deps (writerFactory lw) b) = None"
    if b: "b \<in> set (blobs lw)" for b
    using last_with_distinct [OF assms(3) b] Write_success_streams [OF assms(4) b]
    by (simp add: Write_success_metadata [OF c assms(4)] ToAssetValue_def layerDiffID_of_def)
  from Write_success_calls [OF assms(4)] card each files show ?thesis by blast
qed

lemma last_with_decompose:
  assumes "sha_of b = k" and "\<forall>z\<in>set zs. sha_of z \<noteq> k"
  shows "last_with k (xs @ b # zs) = Some b"
proof -
  have z: "last_with k zs = None" using assms(2) by (auto simp: last_with_None_iff)
  have "last_with k ((xs @ [b]) @ zs) = Some b"
    unfolding last_with_append [of k "xs @ [b]" zs] z using assms(1) by simp
  then show ?thesis by simp
qed

text \<open>
  Claim C2. Let two blobs \<open>B1\<close> and then \<open>B2\<close> with the same declared hash \<open>H\<close> be
  among the blobs added to a writer whose metadata map only its own methods have
  changed, \<open>B2\<close> being the last one of that hash. When
  \<^verbatim>\<open>Write\<close> succeeds, the entry of the metadata map at \<open>H\<close> has the identity fields of
  \<open>B2\<close> and the diff-id of the layer built from \<open>B2\<close>.
\<close>

theorem write_last_wins:
  assumes "untampered lw"
    and "blobs lw = xs @ B1 # ys @ B2 # zs"
    and "Sha256 (AssetDescriptor B1) = H"
    and "Sha256 (AssetDescriptor B2) = H"
    and "\<forall>z\<in>set zs. Sha256 (AssetDescriptor z) \<noteq> H"
    and "Write deps lw w os = (None, lw', w', os')"
  shows "metadata lw' H =
           Some \<lparr> AssetValue.ID = AssetInfo.ID (AssetDescriptor B2),
                  AssetValue.Name = AssetInfo.Name (AssetDescriptor B2),
                  AssetValue.Version = AssetInfo.Version (AssetDescriptor B2),
                  AssetValue.URI = AssetInfo.URI (AssetDescriptor B2),
                  AssetValue.Stacks = AssetInfo.Stacks (AssetDescriptor B2),
                  LayerDiffID =
                    ''sha256:'' @ hex_EncodeToString
                      (sha256_Sum deps (fst (assetLayerReader deps (writerFactory lw) B2))) \<rparr>"
proof -
  have c: "consistent lw" using assms(1) by (rule untampered_consistent)
  have "blobs lw = (xs @ B1 # ys) @ B2 # zs" using assms(2) by simp
  then have "last_with H (blobs lw) = Some B2"
    using last_with_decompose [OF assms(4) assms(5), of "xs @ B1 # ys"] by simp
  then show ?thesis
    by (simp add: Write_success_metadata [OF c assms(6)] ToAssetValue_def layerDiffID_of_def)
qed

subsection \<open>The example writers\<close>

lemmas ex_reader_defs =
  assetLayerReader_def GenerateTarWithWriter_def toAssetTar_def NewWriter_def
  WriteHeader_def tw_Write_def tw_Close_def tw_call_def ex_twf_def ex_deps_def
  path_Join_def path_Clean_def

lemma ex_reader_first:
  "assetLayerReader ex_deps ex_twf firstAssetBlob
     = (''/cnb|/cnb/assets|/cnb/assets/first-sha256|first asset contents'', None)"
  by (simp add: ex_reader_defs firstAssetBlob_def firstAsset_def)

lemma ex_reader_second:
  "assetLayerReader ex_deps ex_twf secondAssetBlob
     = (''/cnb|/cnb/assets|/cnb/assets/second-sha256|second asset contents'', None)"
  by (simp add: ex_reader_defs secondAssetBlob_def secondAsset_def)

lemma ex_reader_replace:
  "assetLayerReader ex_deps ex_twf firstAssetReplaceBlob
     = (''/cnb|/cnb/assets|/cnb/assets/first-sha256|first replace asset contents'', None)"
  by (simp add: ex_reader_defs firstAssetReplaceBlob_def firstAssetReplace_def)

lemma ex_sha_of:
  "Sha256 (AssetDescriptor firstAssetBlob) = ''first-sha256''"
  "Sha256 (AssetDescriptor secondAssetBlob) = ''second-sha256''"
  "Sha256 (AssetDescriptor firstAssetReplaceBlob) = ''first-sha256''"
  by (simp_all add: firstAssetBlob_def firstAsset_def secondAssetBlob_def secondAsset_def
        firstAssetReplaceBlob_def firstAssetReplace_def)

lemma ex_layer_files:
  "filepath_Join [''/tmp/writer-workspace123'', ''first-sha256'']
     = ''/tmp/writer-workspace123/first-sha256''"
  "filepath_Join [''/tmp/writer-workspace123'', ''second-sha256'']
     = ''/tmp/writer-workspace123/second-sha256''"
  by (simp_all add: filepath_Join_def path_Join_def path_Clean_def)

lemma ex_diffIDs:
  "layerDiffID_of ex_deps ex_twf firstAssetBlob = ''sha256:3e''"
  "layerDiffID_of ex_deps ex_twf secondAssetBlob = ''sha256:40''"
  "layerDiffID_of ex_deps ex_twf firstAssetReplaceBlob = ''sha256:46''"
  by (simp_all add: layerDiffID_of_def ex_reader_first ex_reader_second ex_reader_replace)
     (simp_all add: ex_deps_def ex_sum_def hexdigit_def)

lemma ex_two_blobs_fields:
  "tmpDir ex_two_blobs = ''/tmp/writer-workspace123''"
  "blobs ex_two_blobs = [firstAssetBlob, secondAssetBlob]"
  "writerFactory ex_two_blobs = ex_twf"
  "metadata ex_two_blobs ''first-sha256'' = Some (ToAssetValue firstAsset [])"
  "metadata ex_two_blobs ''second-sha256'' = Some (ToAssetValue secondAsset [])"
  by (simp_all add: ex_two_blobs_def ex_new_open_eq ex_open_writer_def AddAssetBlobs_def ex_sha_of)
     (simp_all add: firstAssetBlob_def secondAssetBlob_def)

lemma ex_replaced_fields:
  "tmpDir ex_replaced = ''/tmp/writer-workspace123''"
  "blobs ex_replaced = [firstAssetBlob, firstAssetReplaceBlob]"
  "writerFactory ex_replaced = ex_twf"
  "metadata ex_replaced ''first-sha256'' = Some (ToAssetValue firstAssetReplace [])"
  by (simp_all add: ex_replaced_def ex_new_open_eq ex_open_writer_def AddAssetBlobs_def ex_sha_of)
     (simp_all add: firstAssetReplaceBlob_def)

lemma ex_write_two_blobs: "fst (Write ex_deps ex_two_blobs ex_target ex_open_os) = None"
  by (simp add: Write_def ex_two_blobs_fields ex_sha_of ex_layer_files createAssetLayerFile_def os_OpenFile_def filepath_Dir_def path_Clean_def
        ex_reader_first ex_reader_second AddLayerWithDiffID_def w_call_def dist_SetLabel_def
        SetLabel_def ex_target_def ex_open_os_def ex_os_def Let_def)

lemma ex_write_replaced: "fst (Write ex_deps ex_replaced ex_target ex_open_os) = None"
  by (simp add: Write_def ex_replaced_fields ex_sha_of ex_layer_files createAssetLayerFile_def os_OpenFile_def filepath_Dir_def path_Clean_def
        ex_reader_first ex_reader_replace AddLayerWithDiffID_def w_call_def dist_SetLabel_def
        SetLabel_def ex_target_def ex_open_os_def ex_os_def Let_def)

lemma ex_tampered_fields:
  "tmpDir ex_tampered = ''/tmp/writer-workspace123''"
  "blobs ex_tampered = [firstAssetBlob]"
  "writerFactory ex_tampered = ex_twf"
  "metadata ex_tampered ''first-sha256'' = None"
  by (simp_all add: ex_tampered_def AssetMetadata_delete_def ex_new_open_eq ex_open_writer_def
        AddAssetBlobs_def ex_sha_of)

theorem unknown_sha_unreachable_counterexample:
  "reachable ex_tampered
   \<and> blobs ex_tampered = [firstAssetBlob]
   \<and> Sha256 (AssetDescriptor firstAssetBlob) = ''first-sha256''
   \<and> fst (Write ex_deps ex_tampered ex_target ex_open_os)
       = Some (Errorf ''unknown sha256 asset value first-sha256'')"
proof -
  have "reachable (AddAssetBlobs ex_new_open [firstAssetBlob])"
    using ex_new_open_untampered untampered.add untampered_reachable by blast
  then have r: "reachable ex_tampered"
    unfolding ex_tampered_def by (rule reachable.deleted)
  have w: "fst (Write ex_deps ex_tampered ex_target ex_open_os)
       = Some (Errorf ''unknown sha256 asset value first-sha256'')"
    by (simp add: Write_def ex_tampered_fields ex_sha_of ex_layer_files createAssetLayerFile_def
          os_OpenFile_def filepath_Dir_def path_Clean_def ex_reader_first AddLayerWithDiffID_def
          w_call_def ex_target_def ex_open_os_def ex_os_def Let_def)
  from r w show ?thesis by (simp add: ex_tampered_fields ex_sha_of)
qed

theorem write_distinct_hashes_witness:
  "untampered ex_two_blobs
   \<and> blobs ex_two_blobs = [firstAssetBlob, secondAssetBlob]
   \<and> distinct (map (\<lambda>b. Sha256 (AssetDescriptor b)) (blobs ex_two_blobs))
   \<and> fst (Write ex_deps ex_two_blobs ex_target ex_open_os) = None
   \<and> w_calls (fst (snd (snd (Write ex_deps ex_two_blobs ex_target ex_open_os))))
       = [AddLayerCall ''/tmp/writer-workspace123/first-sha256'' ''sha256:3e'',
          AddLayerCall ''/tmp/writer-workspace123/second-sha256'' ''sha256:40'',
          SetLabelCall ''io.buildpacks.asset.layers'' ''{}'']
   \<and> card (dom (metadata (fst (snd (Write ex_deps ex_two_blobs ex_target ex_open_os))))) = 2
   \<and> (\<exists>v. metadata (fst (snd (Write ex_deps ex_two_blobs ex_target ex_open_os))) ''second-sha256''
             = Some v
          \<and> LayerDiffID v = ''sha256:40'')
   \<and> fs (snd (snd (snd (Write ex_deps ex_two_blobs ex_target ex_open_os))))
        ''/tmp/writer-workspace123/first-sha256''
       = Some (File ''/cnb|/cnb/assets|/cnb/assets/first-sha256|first asset contents'')
   \<and> fs (snd (snd (snd (Write ex_deps ex_two_blobs ex_target ex_open_os))))
        ''/tmp/writer-workspace123/second-sha256''
       = Some (File ''/cnb|/cnb/assets|/cnb/assets/second-sha256|second asset contents'')"
proof -
  let ?R = "Write ex_deps ex_two_blobs ex_target ex_open_os"
  let ?lw' = "fst (snd ?R)" and ?w' = "fst (snd (snd ?R))" and ?os' = "snd (snd (snd ?R))"
  have r: "untampered ex_two_blobs"
    unfolding ex_two_blobs_def using ex_new_open_untampered by (rule untampered.add)
  have n: "blobs ex_two_blobs \<noteq> []" by (simp add: ex_two_blobs_fields)
  have d: "distinct (map (\<lambda>b. Sha256 (AssetDescriptor b)) (blobs ex_two_blobs))"
    by (simp add: ex_two_blobs_fields ex_sha_of)
  have w: "?R = (None, ?lw', ?w', ?os')"
    using ex_write_two_blobs by (cases ?R) simp
  note t = write_distinct_hashes [OF r n d w]
  from t have calls: "w_calls ?w'
       = [AddLayerCall ''/tmp/writer-workspace123/first-sha256'' ''sha256:3e'',
          AddLayerCall ''/tmp/writer-workspace123/second-sha256'' ''sha256:40'',
          SetLabelCall ''io.buildpacks.asset.layers'' ''{}'']"
    by (simp add: ex_two_blobs_fields ex_sha_of ex_layer_files ex_diffIDs LayersLabel_def)
       (simp add: ex_target_def ex_deps_def)
  from t have card: "card (dom (metadata ?lw')) = 2"
    by (simp add: ex_two_blobs_fields)
  have "secondAssetBlob \<in> set (blobs ex_two_blobs)" by (simp add: ex_two_blobs_fields)
  with t have "\<exists>v. metadata ?lw' (Sha256 (AssetDescriptor secondAssetBlob)) = Some v
          \<and> LayerDiffID v = ''sha256:'' @ hex_EncodeToString
                      (sha256_Sum ex_deps (fst (assetLayerReader ex_deps (writerFactory ex_two_blobs) secondAssetBlob)))"
    by blast
  then have entry: "\<exists>v. metadata ?lw' ''second-sha256'' = Some v \<and> LayerDiffID v = ''sha256:40''"
    using ex_diffIDs(2) by (simp add: ex_sha_of ex_two_blobs_fields layerDiffID_of_def)
  from t have "?os' = ex_open_os\<lparr> fs := fold (store_layer ex_deps (tmpDir ex_two_blobs)
                        (writerFactory ex_two_blobs)) (blobs ex_two_blobs) (fs ex_open_os) \<rparr>"
    by blast
  then have files:
    "fs ?os' ''/tmp/writer-workspace123/first-sha256''
       = Some (File ''/cnb|/cnb/assets|/cnb/assets/first-sha256|first asset contents'')"
    "fs ?os' ''/tmp/writer-workspace123/second-sha256''
       = Some (File ''/cnb|/cnb/assets|/cnb/assets/second-sha256|second asset contents'')"
    by (simp_all add: ex_two_blobs_fields store_layer_def ex_sha_of ex_layer_files
          ex_reader_first ex_reader_second)
  from r d ex_write_two_blobs calls card entry files show ?thesis
    by (simp add: ex_two_blobs_fields)
qed

theorem write_last_wins_witness:
  "untampered ex_replaced
   \<and> blobs ex_replaced = [] @ firstAssetBlob # [] @ firstAssetReplaceBlob # []
   \<and> Sha256 (AssetDescriptor firstAssetBlob) = ''first-sha256''
   \<and> Sha256 (AssetDescriptor firstAssetReplaceBlob) = ''first-sha256''
   \<and> fst (Write ex_deps ex_replaced ex_target ex_open_os) = None
   \<and> metadata (fst (snd (Write ex_deps ex_replaced ex_target ex_open_os))) ''first-sha256''
       = Some \<lparr> AssetValue.ID = ''first-asset-replace'',
                AssetValue.Name = ''First AssetInfo Replace'',
                AssetValue.Version = ''1.2.3'',
                AssetValue.URI = ''https://first-asset-replace-uri'',
                AssetValue.Stacks = [''io.buildpacks.stacks.bionic''],
                LayerDiffID = ''sha256:46'' \<rparr>"
proof -
  let ?R = "Write ex_deps ex_replaced ex_target ex_open_os"
  let ?lw' = "fst (snd ?R)" and ?w' = "fst (snd (snd ?R))" and ?os' = "snd (snd (snd ?R))"
  have r: "untampered ex_replaced"
    unfolding ex_replaced_def using ex_new_open_untampered untampered.add by blast
  have b: "blobs ex_replaced = [] @ firstAssetBlob # [] @ firstAssetReplaceBlob # []"
    by (simp add: ex_replaced_fields)
  have z: "\<forall>z\<in>set []. Sha256 (AssetDescriptor z) \<noteq> ''first-sha256''" by simp
  have w: "?R = (None, ?lw', ?w', ?os')"
    using ex_write_replaced by (cases ?R) simp
  note t = write_last_wins [OF r b ex_sha_of(1) ex_sha_of(3) z w]
  have m: "metadata ?lw' ''first-sha256''
       = Some \<lparr> AssetValue.ID = ''first-asset-replace'',
                AssetValue.Name = ''First AssetInfo Replace'',
                AssetValue.Version = ''1.2.3'',
                AssetValue.URI = ''https://first-asset-replace-uri'',
                AssetValue.Stacks = [''io.buildpacks.stacks.bionic''],
                LayerDiffID = ''sha256:46'' \<rparr>"
    unfolding t using ex_diffIDs(3)
    by (simp add: ex_replaced_fields layerDiffID_of_def)
       (simp add: firstAssetReplaceBlob_def firstAssetReplace_def)
  from r b ex_sha_of(1) ex_sha_of(3) ex_write_replaced m show ?thesis by blast
qed

subsection \<open>A blob that cannot be opened\<close>

lemma path_Join_cnb [simp]:
  "path_Join [''/cnb''] = ''/cnb''" "path_Join [''/cnb'', ''assets''] = ''/cnb/assets''"
  by (simp_all add: path_Join_def path_Clean_def)

lemma Write_loop_calls:
  "Write_loop deps tmp twf bs md w os = (e, md', w', os') \<Longrightarrow>
     \<exists>cs. w_calls w' = w_calls w @ cs \<and> (\<forall>c\<in>set cs. \<not> is_SetLabel c)"
proof (induction bs arbitrary: md w os)
  case Nil
  then show ?case by simp
next
  case (Cons b bs)
  from Write_loop_Cons_cases [OF Cons.prems]
  consider "w_calls w' = w_calls w" | p d where "w_calls w' = w_calls w @ [AddLayerCall p d]"
    | m d p w1 os1 where "w_calls w1 = w_calls w @ [AddLayerCall p d]"
        "Write_loop deps tmp twf bs (md(sha_of b \<mapsto> m\<lparr> LayerDiffID := d \<rparr>)) w1 os1
           = (e, md', w', os')"
    by blast
  then show ?case
  proof cases
    case 1
    then show ?thesis by simp
  next
    case 2
    then show ?thesis by simp
  next
    case 3
    from Cons.IH [OF 3(2)] obtain cs where
      "w_calls w' = w_calls w1 @ cs" "\<forall>c\<in>set cs. \<not> is_SetLabel c" by blast
    with 3(1) have "w_calls w' = w_calls w @ (AddLayerCall p d # cs)
                    \<and> (\<forall>c\<in>set (AddLayerCall p d # cs). \<not> is_SetLabel c)"
      by simp
    then show ?thesis by blast
  qed
qed

lemma Write_loop_unreadable:
  "b \<in> set bs \<Longrightarrow> BlobOpen b = Inl cause \<Longrightarrow>
   Write_loop deps tmp twf bs md w os = (e, md', w', os') \<Longrightarrow> e \<noteq> None"
proof (induction bs arbitrary: md w os)
  case Nil
  then show ?case by simp
next
  case (Cons x xs)
  from Write_loop_Cons_cases [OF Cons.prems(3)]
  consider "e \<noteq> None"
    | m d w1 os1 where "\<forall>c. BlobOpen x \<noteq> Inl c"
        "Write_loop deps tmp twf xs (md(sha_of x \<mapsto> m\<lparr> LayerDiffID := d \<rparr>)) w1 os1
           = (e, md', w', os')"
    by blast
  then show ?case
  proof cases
    case 1
    then show ?thesis .
  next
    case 2
    with Cons.prems(1,2) have "b \<in> set xs" by auto
    from Cons.IH [OF this Cons.prems(2) 2(2)] show ?thesis .
  qed
qed

lemma toAssetTar_unreadable:
  assumes "BlobOpen b = Inl cause" and "accepts_dirs deps twf"
  shows "fst (toAssetTar deps (NewWriter twf) sha b)
           = Some (Wrapf (External cause) (''unable to open blob for asset '' @ strconv_Quote (IsPrint deps) sha))"
proof -
  let ?h1 = "WriteHeaderCall \<lparr> Typeflag = TypeDir, Name = ''/cnb'', Mode = mode_0755,
                                Size = 0, ModTime = NormalizedDateTime deps \<rparr>"
  let ?h2 = "WriteHeaderCall \<lparr> Typeflag = TypeDir, Name = ''/cnb/assets'', Mode = mode_0755,
                                Size = 0, ModTime = NormalizedDateTime deps \<rparr>"
  obtain o1 o2 where "twf [] ?h1 = (o1, None)" "twf [?h1] ?h2 = (o2, None)"
    using assms(2) unfolding accepts_dirs_def Let_def
    by (cases "twf [] ?h1"; cases "twf [?h1] ?h2") auto
  with assms(1) show ?thesis
    by (simp add: toAssetTar_def WriteHeader_def tw_call_def NewWriter_def Let_def)
qed

lemma createAssetLayerFile_reader_error:
  assumes "layer_file_writable os f (fst r)" and "snd r = Some e"
  shows "fst (createAssetLayerFile deps f r os) = Inl e"
proof -
  obtain x os1 where o: "os_OpenFile os f = (x, os1)" by (cases "os_OpenFile os f")
  with assms(1) have x: "x = None" by (simp add: layer_file_writable_def)
  have "WriteFile_error os1 = WriteFile_error os" using os_OpenFile_fields [OF o] by blast
  with assms o x show ?thesis
    by (cases r) (auto simp: createAssetLayerFile_def layer_file_writable_def Let_def)
qed

text \<open>
  Claim C5, as the code has it. When a blob of the writer cannot be opened, \<^verbatim>\<open>Write\<close>
  returns an error and makes no \<^verbatim>\<open>SetLabel\<close> call on the target. When the blob is the
  first one of an open writer, its layer file can be opened and written and the tar
  writer accepts the two directory headers, the error is the cause wrapped twice:
  \<^verbatim>\<open>unable to create asset layer file: unable to open blob for asset %q: <cause>\<close>,
  with the declared hash quoted as \<^verbatim>\<open>%q\<close> does.
\<close>

theorem write_unreadable_blob:
  assumes "b \<in> set (blobs lw)"
    and "BlobOpen b = Inl cause"
    and "Write deps lw w os = (err, lw', w', os')"
  shows "err \<noteq> None
       \<and> filter is_SetLabel (w_calls w') = filter is_SetLabel (w_calls w)
       \<and> (tmpDir lw \<noteq> [] \<and> (\<exists>rest. blobs lw = b # rest)
            \<and> layer_file_writable os (filepath_Join [tmpDir lw, Sha256 (AssetDescriptor b)])
                 (fst (assetLayerReader deps (writerFactory lw) b))
            \<and> accepts_dirs deps (writerFactory lw)
          \<longrightarrow> err = Some (Wrapf (Wrapf (External cause)
                              (''unable to open blob for asset ''
                                 @ strconv_Quote (IsPrint deps) (Sha256 (AssetDescriptor b))))
                            ''unable to create asset layer file''))"
proof (cases "tmpDir lw = []")
  case True
  with assms(3) show ?thesis by (auto simp: Write_def)
next
  case False
  obtain e1 md w1 os1 where
    l: "Write_loop deps (tmpDir lw) (writerFactory lw) (blobs lw) (metadata lw) w os = (e1, md, w1, os1)"
    by (cases "Write_loop deps (tmpDir lw) (writerFactory lw) (blobs lw) (metadata lw) w os")
  from Write_loop_unreadable [OF assms(1,2) l] obtain e2 where e1: "e1 = Some e2" by blast
  from assms(3) False l e1 have r: "err = Some e2" "w' = w1" by (auto simp: Write_def)
  from Write_loop_calls [OF l] r(2) have calls: "filter is_SetLabel (w_calls w') = filter is_SetLabel (w_calls w)"
    by auto
  have msg: "err = Some (Wrapf (Wrapf (External cause)
                              (''unable to open blob for asset '' @ strconv_Quote (IsPrint deps) (sha_of b)))
                            ''unable to create asset layer file'')"
    if first: "blobs lw = b # rest"
      and writable: "layer_file_writable os (filepath_Join [tmpDir lw, sha_of b])
                       (fst (assetLayerReader deps (writerFactory lw) b))"
      and dirs: "accepts_dirs deps (writerFactory lw)" for rest
  proof -
    let ?e = "Wrapf (External cause) (''unable to open blob for asset '' @ strconv_Quote (IsPrint deps) (sha_of b))"
    have "snd (assetLayerReader deps (writerFactory lw) b) = Some ?e"
      using toAssetTar_unreadable [OF assms(2) dirs, of "sha_of b"]
      by (cases "toAssetTar deps (NewWriter (writerFactory lw)) (sha_of b) b")
         (simp add: assetLayerReader_def GenerateTarWithWriter_def)
    from createAssetLayerFile_reader_error [OF writable this, of deps]
    obtain os2 where "createAssetLayerFile deps (filepath_Join [tmpDir lw, sha_of b])
                        (assetLayerReader deps (writerFactory lw) b) os = (Inl ?e, os2)"
      by (cases "createAssetLayerFile deps (filepath_Join [tmpDir lw, sha_of b])
                        (assetLayerReader deps (writerFactory lw) b) os") auto
    with l first r(1) e1 show ?thesis
      by (auto simp: Let_def)
  qed
  from r(1) calls msg show ?thesis by blast
qed

lemma ex_unreadable_fields:
  "tmpDir ex_unreadable = ''/tmp/writer-workspace123''"
  "blobs ex_unreadable = [mockBlob]"
  "writerFactory ex_unreadable = ex_twf"
  "Sha256 (AssetDescriptor mockBlob) = ''first-sha256''"
  "BlobOpen mockBlob = Inl ''open blob error''"
  by (simp_all add: ex_unreadable_def ex_new_open_eq ex_open_writer_def AddAssetBlobs_def
        mockBlob_def firstAsset_def)

lemma ex_accepts_dirs: "accepts_dirs ex_deps ex_twf"
  by (simp add: accepts_dirs_def ex_twf_def Let_def)

lemma ex_reader_mock:
  "assetLayerReader ex_deps ex_twf mockBlob
     = (''/cnb|/cnb/assets|'',
        Some (Wrapf (External ''open blob error'')
                (''unable to open blob for asset ''
                   @ strconv_Quote (IsPrint ex_deps) ''first-sha256'')))"
  by (simp add: ex_reader_defs mockBlob_def firstAsset_def)

lemma ex_write_unreadable:
  "fst (Write ex_deps ex_unreadable ex_target ex_open_os)
     = Some (Wrapf (Wrapf (External ''open blob error'')
                      (''unable to open blob for asset ''
                         @ strconv_Quote (IsPrint ex_deps) ''first-sha256''))
               ''unable to create asset layer file'')"
  by (simp add: Write_def ex_unreadable_fields ex_layer_files createAssetLayerFile_def
        os_OpenFile_def filepath_Dir_def path_Clean_def ex_reader_mock
        ex_open_os_def ex_os_def Let_def)

theorem write_unreadable_blob_counterexample:
  "mockBlob \<in> set (blobs ex_unreadable)
   \<and> BlobOpen mockBlob = Inl ''open blob error''
   \<and> fst (Write ex_deps ex_unreadable ex_target ex_open_os)
       = Some (Wrapf (Wrapf (External ''open blob error'')
                        (''unable to open blob for asset '' @ strconv_Quote (IsPrint ex_deps) ''first-sha256''))
                 ''unable to create asset layer file'')
   \<and> Error (Wrapf (Wrapf (External ''open blob error'')
                     (''unable to open blob for asset '' @ strconv_Quote (IsPrint ex_deps) ''first-sha256''))
              ''unable to create asset layer file'')
       = ''unable to create asset layer file: unable to open blob for asset ''
           @ [CHR 0x22] @ ''first-sha256'' @ [CHR 0x22] @ '': open blob error''
   \<and> \<not> strings_Contains
          (Error (Wrapf (Wrapf (External ''open blob error'')
                           (''unable to open blob for asset '' @ strconv_Quote (IsPrint ex_deps) ''first-sha256''))
                    ''unable to create asset layer file''))
          ''unable to add asset blobs''"
proof -
  have m: "Error (Wrapf (Wrapf (External ''open blob error'')
                     (''unable to open blob for asset '' @ strconv_Quote (IsPrint ex_deps) ''first-sha256''))
              ''unable to create asset layer file'')
       = ''unable to create asset layer file: unable to open blob for asset ''
           @ [CHR 0x22] @ ''first-sha256'' @ [CHR 0x22] @ '': open blob error''"
    by (simp add: strconv_Quote_def appendEscapedRune_def strconv_IsPrint_def RuneError_def)
  have c: "\<not> strings_Contains
          (''unable to create asset layer file: unable to open blob for asset ''
             @ [CHR 0x22] @ ''first-sha256'' @ [CHR 0x22] @ '': open blob error'')
          ''unable to add asset blobs''"
    by simp
  from ex_write_unreadable m c show ?thesis
    unfolding m by (simp add: ex_unreadable_fields)
qed

theorem write_unreadable_blob_witness:
  "mockBlob \<in> set (blobs ex_unreadable)
   \<and> BlobOpen mockBlob = Inl ''open blob error''
   \<and> tmpDir ex_unreadable \<noteq> []
   \<and> blobs ex_unreadable = mockBlob # []
   \<and> layer_file_writable ex_open_os
        (filepath_Join [tmpDir ex_unreadable, Sha256 (AssetDescriptor mockBlob)])
        (fst (assetLayerReader ex_deps (writerFactory ex_unreadable) mockBlob))
   \<and> accepts_dirs ex_deps (writerFactory ex_unreadable)
   \<and> fst (Write ex_deps ex_unreadable ex_target ex_open_os)
       = Some (Wrapf (Wrapf (External ''open blob error'')
                        (''unable to open blob for asset '' @ strconv_Quote (IsPrint ex_deps) ''first-sha256''))
                 ''unable to create asset layer file'')
   \<and> filter is_SetLabel (w_calls (fst (snd (snd (Write ex_deps ex_unreadable ex_target ex_open_os)))))
       = []"
proof -
  let ?R = "Write ex_deps ex_unreadable ex_target ex_open_os"
  have b: "mockBlob \<in> set (blobs ex_unreadable)" by (simp add: ex_unreadable_fields)
  have o: "BlobOpen mockBlob = Inl ''open blob error''" by (rule ex_unreadable_fields)
  have w: "?R = (fst ?R, fst (snd ?R), fst (snd (snd ?R)), snd (snd (snd ?R)))" by simp
  have t: "tmpDir ex_unreadable \<noteq> []" by (simp add: ex_unreadable_fields)
  have l: "blobs ex_unreadable = mockBlob # []" by (simp add: ex_unreadable_fields)
  have f: "layer_file_writable ex_open_os
        (filepath_Join [tmpDir ex_unreadable, Sha256 (AssetDescriptor mockBlob)])
        (fst (assetLayerReader ex_deps (writerFactory ex_unreadable) mockBlob))"
    by (simp add: layer_file_writable_def os_OpenFile_def filepath_Dir_def path_Clean_def
          ex_unreadable_fields ex_layer_files ex_reader_mock ex_open_os_def ex_os_def)
  have a: "accepts_dirs ex_deps (writerFactory ex_unreadable)"
    using ex_accepts_dirs by (simp add: ex_unreadable_fields)
  note u = write_unreadable_blob [OF b o w]
  from u t l f a have e: "fst ?R
       = Some (Wrapf (Wrapf (External ''open blob error'')
                        (''unable to open blob for asset ''
                           @ strconv_Quote (IsPrint ex_deps) (Sha256 (AssetDescriptor mockBlob))))
                 ''unable to create asset layer file'')"
    by blast
  from u have c: "filter is_SetLabel (w_calls (fst (snd (snd ?R)))) = filter is_SetLabel (w_calls ex_target)"
    by blast
  from b o t l f a e c show ?thesis
    by (simp add: ex_unreadable_fields ex_target_def)
qed

subsection \<open>The entries of a layer\<close>

lemma split_slash_nonempty: "split_slash s \<noteq> []"
  by (induction s) (auto split: list.splits)

lemma split_slash_append:
  "split_slash (x @ CHR ''/'' # y) = split_slash x @ split_slash y"
proof (induction x)
  case Nil
  then show ?case by simp
next
  case (Cons c x)
  then show ?case
    using split_slash_nonempty [of x] by (auto split: list.splits)
qed

lemma join_slash_Cons: "es \<noteq> [] \<Longrightarrow> join_slash (e # es) = e @ CHR ''/'' # join_slash es"
  by (cases es) simp_all

lemma join_split_slash: "join_slash (split_slash s) = s"
proof (induction s)
  case Nil
  then show ?case by simp
next
  case (Cons c s)
  then show ?case
    using split_slash_nonempty [of s]
    by (auto simp: join_slash_Cons split: list.splits) (metis join_slash.simps(2) join_slash_Cons append_Cons)
qed

lemma clean_elems_clean:
  "\<forall>e\<in>set es. e \<noteq> [] \<and> e \<noteq> ''.'' \<and> e \<noteq> ''..'' \<Longrightarrow> clean_elems rooted out es = rev out @ es"
  by (induction es arbitrary: out) auto

lemma path_Join_assets:
  assumes "clean_relative sha"
  shows "path_Join [''/cnb'', ''assets'', sha] = ''/cnb/assets/'' @ sha"
proof -
  have j: "join_slash [''/cnb'', ''assets'', sha] = ''/cnb/assets/'' @ sha" by simp
  have "split_slash (''/cnb/assets/'' @ sha) = [[], ''cnb'', ''assets''] @ split_slash sha"
    using split_slash_append [of "''/cnb/assets''" sha] by simp
  then have "clean_elems True [] (split_slash (''/cnb/assets/'' @ sha)) = [''cnb'', ''assets''] @ split_slash sha"
    using assms clean_elems_clean [of "split_slash sha" True "[''assets'', ''cnb'']"]
    by (simp add: clean_relative_def)
  then have "join_slash (clean_elems True [] (split_slash (''/cnb/assets/'' @ sha))) = ''cnb/assets/'' @ sha"
    using split_slash_nonempty [of sha] join_split_slash [of sha]
    by (simp add: join_slash_Cons)
  then show ?thesis
    unfolding path_Join_def by (simp add: path_Clean_def j del: join_slash.simps)
qed


lemma split_slash_free: "e \<in> set (split_slash s) \<Longrightarrow> CHR ''/'' \<notin> set e"
proof (induction s arbitrary: e)
  case Nil
  then show ?case by simp
next
  case (Cons c s)
  then show ?case
    using split_slash_nonempty [of s] by (auto split: list.splits if_splits)
qed

lemma split_slash_element: "CHR ''/'' \<notin> set s \<Longrightarrow> split_slash s = [s]"
  by (induction s) auto

lemma split_join_slash:
  "es \<noteq> [] \<Longrightarrow> \<forall>e\<in>set es. CHR ''/'' \<notin> set e \<Longrightarrow> split_slash (join_slash es) = es"
proof (induction es)
  case Nil
  then show ?case by simp
next
  case (Cons e es)
  show ?case
  proof (cases "es = []")
    case True
    with Cons.prems show ?thesis by (simp add: split_slash_element)
  next
    case False
    with Cons show ?thesis
      by (simp add: join_slash_Cons split_slash_append split_slash_element)
  qed
qed

lemma clean_elems_rooted:
  assumes "\<forall>e\<in>set out. e \<noteq> [] \<and> e \<noteq> ''.'' \<and> e \<noteq> ''..'' \<and> CHR ''/'' \<notin> set e"
    and "\<forall>e\<in>set es. CHR ''/'' \<notin> set e"
  shows "\<forall>e\<in>set (clean_elems True out es).
           e \<noteq> [] \<and> e \<noteq> ''.'' \<and> e \<noteq> ''..'' \<and> CHR ''/'' \<notin> set e"
  using assms
proof (induction es arbitrary: out)
  case Nil
  then show ?case by simp
next
  case (Cons x es)
  note good = Cons.prems(1)
  have free: "\<forall>e\<in>set es. CHR ''/'' \<notin> set e" and x: "CHR ''/'' \<notin> set x"
    using Cons.prems(2) by simp_all
  consider (skip) "x = [] \<or> x = ''.''"
    | (root) "x = ''..''" "out = []"
    | (up) t ts where "x = ''..''" "out = t # ts"
    | (keep) "x \<noteq> []" "x \<noteq> ''.''" "x \<noteq> ''..''"
    by (cases out) auto
  then show ?case
  proof cases
    case skip
    then have "clean_elems True out (x # es) = clean_elems True out es" by auto
    then show ?thesis using Cons.IH [OF good free] by simp
  next
    case root
    then have "clean_elems True out (x # es) = clean_elems True out es" by simp
    then show ?thesis using Cons.IH [OF good free] by simp
  next
    case up
    with good have t: "t \<noteq> ''..''" by simp
    from up good have ts: "\<forall>e\<in>set ts. e \<noteq> [] \<and> e \<noteq> ''.'' \<and> e \<noteq> ''..'' \<and> CHR ''/'' \<notin> set e"
      by simp
    from up t have "clean_elems True out (x # es) = clean_elems True ts es" by simp
    then show ?thesis using Cons.IH [OF ts free] by simp
  next
    case keep
    with good x have g: "\<forall>e\<in>set (x # out). e \<noteq> [] \<and> e \<noteq> ''.'' \<and> e \<noteq> ''..'' \<and> CHR ''/'' \<notin> set e"
      by simp
    from keep have "clean_elems True out (x # es) = clean_elems True (x # out) es" by simp
    then show ?thesis using Cons.IH [OF g free] by simp
  qed
qed

lemma path_Join_assets_only_if:
  assumes "path_Join [''/cnb'', ''assets'', sha] = ''/cnb/assets/'' @ sha"
  shows "clean_relative sha"
proof -
  define p where "p = ''/cnb/assets/'' @ sha"
  define ce where "ce = clean_elems True [] (split_slash p)"
  have good: "\<forall>e\<in>set ce. e \<noteq> [] \<and> e \<noteq> ''.'' \<and> e \<noteq> ''..'' \<and> CHR ''/'' \<notin> set e"
    unfolding ce_def
  proof (rule clean_elems_rooted)
    show "\<forall>e\<in>set []. e \<noteq> [] \<and> e \<noteq> ''.'' \<and> e \<noteq> ''..'' \<and> CHR ''/'' \<notin> set e" by simp
    show "\<forall>e\<in>set (split_slash p). CHR ''/'' \<notin> set e" using split_slash_free by blast
  qed
  have "path_Join [''/cnb'', ''assets'', sha] = ''/'' @ join_slash ce"
    unfolding path_Join_def ce_def p_def
    by (simp add: path_Clean_def del: join_slash.simps) simp
  with assms have j: "join_slash ce = ''cnb/assets/'' @ sha" by simp
  then have ne: "ce \<noteq> []" by auto
  from split_join_slash [OF ne] good have "split_slash (join_slash ce) = ce" by blast
  with j have a: "split_slash (''cnb/assets/'' @ sha) = ce" by simp
  have b: "split_slash (''cnb/assets/'' @ sha) = [''cnb'', ''assets''] @ split_slash sha"
    using split_slash_append [of "''cnb/assets''" sha] by simp
  from a b have "ce = [''cnb'', ''assets''] @ split_slash sha" by simp
  with good show ?thesis
    unfolding clean_relative_def by (metis Un_iff set_append)
qed

text \<open>
  The condition is exact: \<^verbatim>\<open>path.Join\<close> gives \<^verbatim>\<open>/cnb/assets/<declared hash>\<close> for these
  hashes and for no other.
\<close>

lemma path_Join_assets_iff:
  "path_Join [''/cnb'', ''assets'', sha] = ''/cnb/assets/'' @ sha \<longleftrightarrow> clean_relative sha"
  using path_Join_assets path_Join_assets_only_if by blast





lemma assetLayerReader_fst:
  "fst (assetLayerReader deps twf b)
     = tw_out (snd (tw_Close (snd (toAssetTar deps (NewWriter twf) (Sha256 (AssetDescriptor b)) b))))"
  by (simp add: assetLayerReader_def GenerateTarWithWriter_def split: prod.splits)






lemma ex_layer_calls_first:
  "layer_calls ex_deps ex_twf firstAssetBlob =
           [WriteHeaderCall \<lparr> Typeflag = TypeDir, Name = ''/cnb'', Mode = 493, Size = 0,
                               ModTime = 315532801 \<rparr>,
            WriteHeaderCall \<lparr> Typeflag = TypeDir, Name = ''/cnb/assets'', Mode = 493, Size = 0,
                               ModTime = 315532801 \<rparr>,
            WriteHeaderCall \<lparr> Typeflag = TypeReg, Name = ''/cnb/assets/first-sha256'',
                               Mode = 493, Size = 20, ModTime = 315532801 \<rparr>,
            WriteCall ''first asset contents'']"
  by (simp add: layer_calls_def toAssetTar_def WriteHeader_def tw_Write_def tw_call_def
        NewWriter_def Let_def ex_twf_def ex_deps_def firstAssetBlob_def firstAsset_def
        mode_0755_def path_Join_def path_Clean_def)



subsection \<open>Layers are determined by the declared hash and the content\<close>

lemma toAssetTar_deterministic:
  assumes "BlobOpen b1 = BlobOpen b2"
  shows "toAssetTar deps tw sha b1 = toAssetTar deps tw sha b2"
  unfolding toAssetTar_def assms by (rule refl)

lemma assetLayerReader_same:
  assumes "same_asset b1 b2"
  shows "assetLayerReader deps twf b1 = assetLayerReader deps twf b2"
  using assms toAssetTar_deterministic [of b1 b2]
  by (simp add: assetLayerReader_def same_asset_def)

lemma layerDiffID_of_same:
  assumes "list_all2 same_asset bs1 bs2"
  shows "map (layerDiffID_of deps twf) bs1 = map (layerDiffID_of deps twf) bs2"
  using assms
  by (induction rule: list_all2_induct) (simp_all add: layerDiffID_of_def assetLayerReader_same)

lemma added_diffIDs_append: "added_diffIDs (xs @ ys) = added_diffIDs xs @ added_diffIDs ys"
  by (induction xs rule: added_diffIDs.induct) simp_all

lemma added_diffIDs_layers: "added_diffIDs (map (\<lambda>b. AddLayerCall (p b) (d b)) bs) = map d bs"
  by (induction bs) simp_all

lemma Write_success_diffIDs:
  assumes "Write deps lw w os = (None, lw', w', os')"
  shows "added_diffIDs (w_calls w')
           = added_diffIDs (w_calls w) @ map (layerDiffID_of deps (writerFactory lw)) (blobs lw)"
  by (simp add: Write_success_calls [OF assms] added_diffIDs_append added_diffIDs_layers)

lemma assetLayerReader_map_same:
  assumes "list_all2 same_asset bs1 bs2"
  shows "map (assetLayerReader deps twf) bs1 = map (assetLayerReader deps twf) bs2"
  using assms
  by (induction rule: list_all2_induct) (simp_all add: assetLayerReader_same)

text \<open>
  Claim C7, as the code has it: the layers are built by the tar writer factory that the
  writer was made with, and two runs agree when their factories do. Two blobs with the
  same declared hash and the same content have the same layer stream, byte for byte,
  from the same factory, whatever the other fields of their descriptors are; and
  wherever and on whatever file system the layer files are written,
  \<^verbatim>\<open>createAssetLayerFile\<close> gives the same diff-id and the two files hold the same
  bytes. Hence in two runs of \<^verbatim>\<open>Write\<close> that succeed, by writers with the same factory
  over sequences of blobs that agree one by one in declared hash and content, the layer
  streams are the same one by one and the layers are added with the same diff-ids.
\<close>

theorem layer_deterministic:
  "(same_asset b1 b2 \<longrightarrow>
      assetLayerReader deps twf b1 = assetLayerReader deps twf b2
      \<and> (createAssetLayerFile deps f1 (assetLayerReader deps twf b1) os1 = (Inr d1, os1')
         \<and> createAssetLayerFile deps f2 (assetLayerReader deps twf b2) os2 = (Inr d2, os2')
         \<longrightarrow> d1 = d2 \<and> fs os1' f1 = fs os2' f2
             \<and> fs os1' f1 = Some (File (fst (assetLayerReader deps twf b1)))))
   \<and> (list_all2 same_asset (blobs lw1) (blobs lw2)
       \<and> writerFactory lw1 = writerFactory lw2
       \<and> Write deps lw1 w1 osa = (None, lw1', w1', osa')
       \<and> Write deps lw2 w2 osb = (None, lw2', w2', osb')
       \<and> added_diffIDs (w_calls w1) = added_diffIDs (w_calls w2)
      \<longrightarrow> map (assetLayerReader deps (writerFactory lw1)) (blobs lw1)
            = map (assetLayerReader deps (writerFactory lw2)) (blobs lw2)
          \<and> added_diffIDs (w_calls w1') = added_diffIDs (w_calls w2'))"
proof -
  have blob: "assetLayerReader deps twf b1 = assetLayerReader deps twf b2
      \<and> (createAssetLayerFile deps f1 (assetLayerReader deps twf b1) os1 = (Inr d1, os1')
         \<and> createAssetLayerFile deps f2 (assetLayerReader deps twf b2) os2 = (Inr d2, os2')
         \<longrightarrow> d1 = d2 \<and> fs os1' f1 = fs os2' f2
             \<and> fs os1' f1 = Some (File (fst (assetLayerReader deps twf b1))))"
    if "same_asset b1 b2"
    using createAssetLayerFile_Inr [of deps f1 "assetLayerReader deps twf b1" os1 d1 os1']
          createAssetLayerFile_Inr [of deps f2 "assetLayerReader deps twf b1" os2 d2 os2']
    unfolding assetLayerReader_same [OF that, of deps twf, symmetric] by auto
  have runs: "added_diffIDs (w_calls w1') = added_diffIDs (w_calls w2')"
    if "list_all2 same_asset (blobs lw1) (blobs lw2)"
      and "writerFactory lw1 = writerFactory lw2"
      and "Write deps lw1 w1 osa = (None, lw1', w1', osa')"
      and "Write deps lw2 w2 osb = (None, lw2', w2', osb')"
      and "added_diffIDs (w_calls w1) = added_diffIDs (w_calls w2)"
    using that layerDiffID_of_same [OF that(1), of deps "writerFactory lw2"]
    by (simp add: Write_success_diffIDs)
  have streams: "map (assetLayerReader deps (writerFactory lw1)) (blobs lw1)
            = map (assetLayerReader deps (writerFactory lw2)) (blobs lw2)"
    if "list_all2 same_asset (blobs lw1) (blobs lw2)"
      and "writerFactory lw1 = writerFactory lw2"
    using assetLayerReader_map_same [OF that(1), of deps "writerFactory lw2"] that(2) by simp
  from blob runs streams show ?thesis by blast
qed

lemma ex_two_blobs_again_fields:
  "tmpDir ex_two_blobs_again = ''/tmp/writer-workspace456''"
  "blobs ex_two_blobs_again = [firstAssetRenamedBlob, secondAssetBlob]"
  "writerFactory ex_two_blobs_again = ex_twf"
  "metadata ex_two_blobs_again ''first-sha256'' = Some (ToAssetValue firstAssetReplace [])"
  "metadata ex_two_blobs_again ''second-sha256'' = Some (ToAssetValue secondAsset [])"
  "Sha256 (AssetDescriptor firstAssetRenamedBlob) = ''first-sha256''"
  by (simp_all add: ex_two_blobs_again_def ex_open_writer_def AddAssetBlobs_def ex_sha_of
        firstAssetRenamedBlob_def firstAssetReplace_def)
     (simp_all add: secondAssetBlob_def)

lemma ex_same_asset: "same_asset firstAssetBlob firstAssetRenamedBlob"
  by (simp add: same_asset_def firstAssetBlob_def firstAssetRenamedBlob_def firstAsset_def
        firstAssetReplace_def)

lemma ex_reader_renamed:
  "assetLayerReader ex_deps ex_twf firstAssetRenamedBlob
     = (''/cnb|/cnb/assets|/cnb/assets/first-sha256|first asset contents'', None)"
  using assetLayerReader_same [OF ex_same_asset, of ex_deps ex_twf] ex_reader_first by simp

lemma ex_write_two_blobs_again:
  "fst (Write ex_deps ex_two_blobs_again ex_target ex_open_os_again) = None"
  by (simp add: Write_def ex_two_blobs_again_fields ex_sha_of createAssetLayerFile_def
        os_OpenFile_def filepath_Dir_def filepath_Join_def path_Join_def path_Clean_def
        ex_reader_renamed ex_reader_second AddLayerWithDiffID_def w_call_def dist_SetLabel_def
        SetLabel_def ex_target_def ex_open_os_again_def ex_os_def Let_def)

theorem layer_deterministic_witness:
  "same_asset firstAssetBlob firstAssetRenamedBlob
   \<and> AssetDescriptor firstAssetBlob \<noteq> AssetDescriptor firstAssetRenamedBlob
   \<and> assetLayerReader ex_deps ex_twf firstAssetRenamedBlob
       = (''/cnb|/cnb/assets|/cnb/assets/first-sha256|first asset contents'', None)
   \<and> fst (createAssetLayerFile ex_deps ''/tmp/writer-workspace123/first-sha256''
        (assetLayerReader ex_deps ex_twf firstAssetBlob) ex_open_os)
       = Inr ''3e''
   \<and> fst (createAssetLayerFile ex_deps ''/tmp/other/first-sha256''
        (assetLayerReader ex_deps ex_twf firstAssetRenamedBlob) ex_open_os)
       = Inr ''3e''
   \<and> fs (snd (createAssetLayerFile ex_deps ''/tmp/other/first-sha256''
        (assetLayerReader ex_deps ex_twf firstAssetRenamedBlob) ex_open_os))
        ''/tmp/other/first-sha256''
       = Some (File ''/cnb|/cnb/assets|/cnb/assets/first-sha256|first asset contents'')
   \<and> list_all2 same_asset (blobs ex_two_blobs) (blobs ex_two_blobs_again)
   \<and> writerFactory ex_two_blobs = writerFactory ex_two_blobs_again
   \<and> tmpDir ex_two_blobs \<noteq> tmpDir ex_two_blobs_again
   \<and> fst (Write ex_deps ex_two_blobs ex_target ex_open_os) = None
   \<and> fst (Write ex_deps ex_two_blobs_again ex_target ex_open_os_again) = None
   \<and> map (assetLayerReader ex_deps ex_twf) (blobs ex_two_blobs_again)
       = map (assetLayerReader ex_deps ex_twf) (blobs ex_two_blobs)
   \<and> added_diffIDs
        (w_calls (fst (snd (snd (Write ex_deps ex_two_blobs_again ex_target ex_open_os_again)))))
       = added_diffIDs (w_calls (fst (snd (snd (Write ex_deps ex_two_blobs ex_target ex_open_os)))))"
proof -
  let ?b2 = firstAssetRenamedBlob
  let ?C1 = "createAssetLayerFile ex_deps ''/tmp/writer-workspace123/first-sha256''
               (assetLayerReader ex_deps ex_twf firstAssetBlob) ex_open_os"
  let ?C2 = "createAssetLayerFile ex_deps ''/tmp/other/first-sha256''
               (assetLayerReader ex_deps ex_twf ?b2) ex_open_os"
  let ?R1 = "Write ex_deps ex_two_blobs ex_target ex_open_os"
  let ?R2 = "Write ex_deps ex_two_blobs_again ex_target ex_open_os_again"
  have n: "AssetDescriptor firstAssetBlob \<noteq> AssetDescriptor ?b2"
    by (simp add: firstAssetBlob_def firstAssetRenamedBlob_def firstAsset_def firstAssetReplace_def)
  have "fst ?C1 = Inr ''3e''"
    by (simp add: createAssetLayerFile_def os_OpenFile_def filepath_Dir_def path_Clean_def
          ex_reader_first ex_open_os_def ex_os_def)
       (simp add: ex_deps_def ex_sum_def hexdigit_def)
  then have c1: "?C1 = (Inr ''3e'', snd ?C1)" by (cases ?C1) simp
  have "\<exists>d. fst ?C2 = Inr d"
    by (simp add: createAssetLayerFile_def os_OpenFile_def filepath_Dir_def path_Clean_def
          ex_reader_renamed ex_open_os_def ex_os_def)
  then obtain d2 where "fst ?C2 = Inr d2" by blast
  then have c2: "?C2 = (Inr d2, snd ?C2)" by (cases ?C2) simp
  have l: "list_all2 same_asset (blobs ex_two_blobs) (blobs ex_two_blobs_again)"
    using ex_same_asset by (simp add: ex_two_blobs_fields ex_two_blobs_again_fields same_asset_def)
  have f: "writerFactory ex_two_blobs = writerFactory ex_two_blobs_again"
    by (simp add: ex_two_blobs_fields ex_two_blobs_again_fields)
  have d: "tmpDir ex_two_blobs \<noteq> tmpDir ex_two_blobs_again"
    by (simp add: ex_two_blobs_fields ex_two_blobs_again_fields)
  have r1: "?R1 = (None, fst (snd ?R1), fst (snd (snd ?R1)), snd (snd (snd ?R1)))"
    using ex_write_two_blobs by (cases ?R1) simp
  have r2: "?R2 = (None, fst (snd ?R2), fst (snd (snd ?R2)), snd (snd (snd ?R2)))"
    using ex_write_two_blobs_again by (cases ?R2) simp
  note t = layer_deterministic [of firstAssetBlob ?b2 ex_deps ex_twf
      "''/tmp/writer-workspace123/first-sha256''" ex_open_os "''3e''" "snd ?C1"
      "''/tmp/other/first-sha256''" ex_open_os d2 "snd ?C2"
      ex_two_blobs ex_two_blobs_again ex_target ex_open_os "fst (snd ?R1)" "fst (snd (snd ?R1))"
      "snd (snd (snd ?R1))" ex_target ex_open_os_again "fst (snd ?R2)" "fst (snd (snd ?R2))"
      "snd (snd (snd ?R2))"]
  from t ex_same_asset have r: "assetLayerReader ex_deps ex_twf ?b2
       = (''/cnb|/cnb/assets|/cnb/assets/first-sha256|first asset contents'', None)"
    using ex_reader_first by simp
  from t ex_same_asset c1 c2 have e2: "''3e'' = d2"
    and g: "fs (snd ?C2) ''/tmp/other/first-sha256''
              = Some (File (fst (assetLayerReader ex_deps ex_twf firstAssetBlob)))"
    by metis+
  from e2 c2 have e: "fst ?C2 = Inr ''3e''" by (metis fst_conv)
  from g have g': "fs (snd ?C2) ''/tmp/other/first-sha256''
       = Some (File ''/cnb|/cnb/assets|/cnb/assets/first-sha256|first asset contents'')"
    by (simp add: ex_reader_first)
  from t l f r1 r2
  have a: "map (assetLayerReader ex_deps ex_twf) (blobs ex_two_blobs_again)
             = map (assetLayerReader ex_deps ex_twf) (blobs ex_two_blobs)
         \<and> added_diffIDs (w_calls (fst (snd (snd ?R2)))) = added_diffIDs (w_calls (fst (snd (snd ?R1))))"
    by (simp add: ex_two_blobs_fields ex_two_blobs_again_fields)
  from c1 have e1: "fst ?C1 = Inr ''3e''" by (metis fst_conv)
  from ex_same_asset n r e1 e g' l f d ex_write_two_blobs ex_write_two_blobs_again a
  show ?thesis by blast
qed

lemma ex_two_blobs_windows_fields:
  "tmpDir ex_two_blobs_windows = ''/tmp/writer-workspace123''"
  "blobs ex_two_blobs_windows = [firstAssetBlob, secondAssetBlob]"
  "writerFactory ex_two_blobs_windows = ex_windows_twf"
  "metadata ex_two_blobs_windows ''first-sha256'' = Some (ToAssetValue firstAsset [])"
  "metadata ex_two_blobs_windows ''second-sha256'' = Some (ToAssetValue secondAsset [])"
  by (simp_all add: ex_two_blobs_windows_def Open_def ioutil_TempDir_def NewLayerWriter_def
        ex_os_def AddAssetBlobs_def ex_sha_of Let_def)
     (simp_all add: firstAssetBlob_def secondAssetBlob_def)

lemmas ex_windows_reader_defs =
  assetLayerReader_def GenerateTarWithWriter_def toAssetTar_def NewWriter_def
  WriteHeader_def tw_Write_def tw_Close_def tw_call_def ex_windows_twf_def ex_deps_def
  path_Join_def path_Clean_def

lemma ex_windows_reader_first:
  "assetLayerReader ex_deps ex_windows_twf firstAssetBlob
     = (''Files/cnb|Files/cnb/assets|Files/cnb/assets/first-sha256|first asset contents'', None)"
  by (simp add: ex_windows_reader_defs firstAssetBlob_def firstAsset_def)

lemma ex_windows_reader_second:
  "assetLayerReader ex_deps ex_windows_twf secondAssetBlob
     = (''Files/cnb|Files/cnb/assets|Files/cnb/assets/second-sha256|second asset contents'', None)"
  by (simp add: ex_windows_reader_defs secondAssetBlob_def secondAsset_def)

lemmas ex_write_defs =
  Write_def ex_sha_of ex_layer_files createAssetLayerFile_def os_OpenFile_def filepath_Dir_def
  path_Clean_def AddLayerWithDiffID_def w_call_def dist_SetLabel_def SetLabel_def
  ex_target_def ex_open_os_def ex_os_def Let_def

lemma ex_write_two_blobs_layers:
  "fs (snd (snd (snd (Write ex_deps ex_two_blobs ex_target ex_open_os))))
      ''/tmp/writer-workspace123/first-sha256''
     = Some (File ''/cnb|/cnb/assets|/cnb/assets/first-sha256|first asset contents'')"
  "added_diffIDs (w_calls (fst (snd (snd (Write ex_deps ex_two_blobs ex_target ex_open_os)))))
     = [''sha256:3e'', ''sha256:40'']"
  by (simp_all add: ex_write_defs ex_two_blobs_fields ex_reader_first ex_reader_second)
     (simp_all add: ex_deps_def ex_sum_def hexdigit_def)

lemma ex_write_two_blobs_windows:
  "fst (Write ex_deps ex_two_blobs_windows ex_target ex_open_os) = None"
  "fs (snd (snd (snd (Write ex_deps ex_two_blobs_windows ex_target ex_open_os))))
      ''/tmp/writer-workspace123/first-sha256''
     = Some (File ''Files/cnb|Files/cnb/assets|Files/cnb/assets/first-sha256|first asset contents'')"
  "added_diffIDs
     (w_calls (fst (snd (snd (Write ex_deps ex_two_blobs_windows ex_target ex_open_os)))))
     = [''sha256:4d'', ''sha256:4f'']"
  by (simp_all add: ex_write_defs ex_two_blobs_windows_fields ex_windows_reader_first
        ex_windows_reader_second)
     (simp_all add: ex_deps_def ex_sum_def hexdigit_def)

theorem layer_deterministic_counterexample:
  "blobs ex_two_blobs = blobs ex_two_blobs_windows
   \<and> tmpDir ex_two_blobs = tmpDir ex_two_blobs_windows
   \<and> writerFactory ex_two_blobs = ex_twf
   \<and> writerFactory ex_two_blobs_windows = ex_windows_twf
   \<and> fst (Write ex_deps ex_two_blobs ex_target ex_open_os) = None
   \<and> fst (Write ex_deps ex_two_blobs_windows ex_target ex_open_os) = None
   \<and> fs (snd (snd (snd (Write ex_deps ex_two_blobs ex_target ex_open_os))))
        ''/tmp/writer-workspace123/first-sha256''
       = Some (File ''/cnb|/cnb/assets|/cnb/assets/first-sha256|first asset contents'')
   \<and> fs (snd (snd (snd (Write ex_deps ex_two_blobs_windows ex_target ex_open_os))))
        ''/tmp/writer-workspace123/first-sha256''
       = Some (File ''Files/cnb|Files/cnb/assets|Files/cnb/assets/first-sha256|first asset contents'')
   \<and> added_diffIDs (w_calls (fst (snd (snd (Write ex_deps ex_two_blobs ex_target ex_open_os)))))
       = [''sha256:3e'', ''sha256:40'']
   \<and> added_diffIDs
        (w_calls (fst (snd (snd (Write ex_deps ex_two_blobs_windows ex_target ex_open_os)))))
       = [''sha256:4d'', ''sha256:4f'']"
  using ex_write_two_blobs ex_write_two_blobs_layers ex_write_two_blobs_windows
  by (simp add: ex_two_blobs_fields ex_two_blobs_windows_fields)

subsection \<open>The URI fetchers and a blob that is not a layout package\<close>

lemma uri_fetchers_on_bad_package:
  assumes "url_Parse a assetFile = Inr uri"
    and "Scheme uri = ''http'' \<or> Scheme uri = ''https''"
    and "Download a (url_String uri) = Inr assetBlob"
    and "NewLayoutPackage a assetBlob = Inl err"
  shows "AssetURIFetcher_FetchURIAssets a (assetFile # rest) = Panicked (External err)"
    and "PackageURLFetcher_FetchURIAssets a (assetFile # rest)
           = ([], Some (Wrapf (External err) ''error opening asset package in OCI format''))"
  using assms
  by (auto simp: AssetURIFetcher_FetchURIAssets_def PackageURLFetcher_FetchURIAssets_def)

text \<open>
  Claim C4 at a failing input. The reference has the scheme \<^verbatim>\<open>https\<close>, the download
  succeeds and the blob does not open as a layout package:
  \<^verbatim>\<open>AssetURIFetcher.FetchURIAssets\<close> panics with the error, where
  \<^verbatim>\<open>PackageURLFetcher.FetchURIAssets\<close> returns it wrapped.
\<close>

theorem uri_fetcher_panics:
  "url_Parse ex_uri_deps ''https://example.com/bad.tar''
     = Inr \<lparr> Scheme = ''https'', url_String = ''https://example.com/bad.tar'' \<rparr>
   \<and> Download ex_uri_deps ''https://example.com/bad.tar''
       = Inr (RawBlob ''https://example.com/bad.tar'')
   \<and> NewLayoutPackage ex_uri_deps (RawBlob ''https://example.com/bad.tar'')
       = Inl ''not an OCI layout''
   \<and> AssetURIFetcher_FetchURIAssets ex_uri_deps [''https://example.com/bad.tar'']
       = Panicked (External ''not an OCI layout'')
   \<and> PackageURLFetcher_FetchURIAssets ex_uri_deps [''https://example.com/bad.tar'']
       = ([], Some (Wrapf (External ''not an OCI layout'')
                      ''error opening asset package in OCI format''))"
proof -
  have p: "url_Parse ex_uri_deps ''https://example.com/bad.tar''
     = Inr \<lparr> Scheme = ''https'', url_String = ''https://example.com/bad.tar'' \<rparr>"
    by (simp add: ex_uri_deps_def ex_url_Parse_def)
  have d: "Download ex_uri_deps ''https://example.com/bad.tar''
       = Inr (RawBlob ''https://example.com/bad.tar'')"
    by (simp add: ex_uri_deps_def)
  have n: "NewLayoutPackage ex_uri_deps (RawBlob ''https://example.com/bad.tar'')
       = Inl ''not an OCI layout''"
    by (simp add: ex_uri_deps_def)
  from p d n uri_fetchers_on_bad_package [of ex_uri_deps "''https://example.com/bad.tar''" _
       "RawBlob ''https://example.com/bad.tar''" "''not an OCI layout''" "[]"]
  show ?thesis by simp
qed

subsection \<open>The fetcher and a reference that fails\<close>

lemma FetchAssets_loop_prefix:
  assumes "\<forall>n\<in>set pre. \<exists>assets call. fetch_one deps a cfg n = Some (assets, None, call)"
  shows "FetchAssets_loop deps a cfg result calls (pre @ rest)
           = FetchAssets_loop deps a cfg
               (result @ concat (map (\<lambda>n. fst (the (fetch_one deps a cfg n))) pre))
               (calls @ map (\<lambda>n. snd (snd (the (fetch_one deps a cfg n)))) pre) rest"
  using assms
proof (induction pre arbitrary: result calls)
  case Nil
  then show ?case by simp
next
  case (Cons n pre)
  from Cons.prems obtain assets call where
    n: "fetch_by_locator a cfg (GetLocatorType deps n (workingDir cfg)) n = Some (assets, None, call)"
    by (auto simp: fetch_one_def)
  from Cons.prems have "\<forall>n\<in>set pre. \<exists>assets call. fetch_one deps a cfg n = Some (assets, None, call)"
    by simp
  from Cons.IH [OF this, of "result @ assets" "calls @ [call]"] n show ?case
    by (simp add: fetch_one_def)
qed

text \<open>
  Claim C3, as the code has it. When the references before one are fetched without
  error and that one fails, \<^verbatim>\<open>FetchAssets\<close> returns what the earlier references
  brought, in their order, and the error that names the locator type of the failing
  reference; the calls made are those for the earlier references and the failing one,
  none for a later reference.
\<close>

theorem fetch_assets_failure:
  assumes "configured deps options cfg"
    and "\<forall>n\<in>set pre. \<exists>assets call. fetch_one deps a cfg n = Some (assets, None, call)"
    and "fetch_one deps a cfg bad = Some (assets, Some err, call)"
  shows "FetchAssets deps a (pre @ bad # post) options
           = ((concat (map (\<lambda>n. fst (the (fetch_one deps a cfg n))) pre),
               Some (Errorf (''unable to fetch asset of type ''
                               @ strconv_Quote (fetch_IsPrint deps)
                                   (LocatorType_String deps (GetLocatorType deps bad (workingDir cfg)))
                               @ '': '' @ err))),
              map (\<lambda>n. snd (snd (the (fetch_one deps a cfg n)))) pre @ [call])"
proof -
  from assms(1) obtain cfg0 where
    c: "DefaultFetcherConfig deps = Inr cfg0" "cfg = fold (\<lambda>option c. option c) options cfg0"
    by (auto simp: configured_def split: sum.splits)
  from assms(3) have b: "fetch_by_locator a cfg (GetLocatorType deps bad (workingDir cfg)) bad
                           = Some (assets, Some err, call)"
    by (simp add: fetch_one_def)
  have "FetchAssets deps a (pre @ bad # post) options
          = FetchAssets_loop deps a cfg [] [] (pre @ bad # post)"
    using c by (simp add: FetchAssets_def)
  then show ?thesis
    by (simp add: FetchAssets_loop_prefix [OF assms(2)] b)
qed

lemma ex_configured: "configured ex_fetcher_deps [] ex_config"
  by (simp add: configured_def DefaultFetcherConfig_def ex_fetcher_deps_def ex_config_def)

lemma ex_fetch_one:
  "fetch_one ex_fetcher_deps ex_fetcher ex_config ''https://example.com/good.tar''
     = Some ([OciReadable (OciLayoutPackage ''https://example.com/good.tar'')], None,
             FetchURIAssetsCall Background [''https://example.com/good.tar''])"
  "fetch_one ex_fetcher_deps ex_fetcher ex_config ''https://example.com/bad.tar''
     = Some ([], Some ''download failed'',
             FetchURIAssetsCall Background [''https://example.com/bad.tar''])"
  "GetLocatorType ex_fetcher_deps ''https://example.com/bad.tar'' (workingDir ex_config) = URILocator"
  by (simp_all add: fetch_one_def fetch_by_locator_def ex_fetcher_deps_def ex_fetcher_def
        NewFetcher_def ex_config_def castOCIToReadable_def)

theorem fetch_assets_failure_witness:
  "configured ex_fetcher_deps [] ex_config
   \<and> fetch_one ex_fetcher_deps ex_fetcher ex_config ''https://example.com/good.tar''
       = Some ([OciReadable (OciLayoutPackage ''https://example.com/good.tar'')], None,
               FetchURIAssetsCall Background [''https://example.com/good.tar''])
   \<and> fetch_one ex_fetcher_deps ex_fetcher ex_config ''https://example.com/bad.tar''
       = Some ([], Some ''download failed'',
               FetchURIAssetsCall Background [''https://example.com/bad.tar''])
   \<and> FetchAssets ex_fetcher_deps ex_fetcher
        ([''https://example.com/good.tar''] @ ''https://example.com/bad.tar''
           # [''https://example.com/later.tar'']) []
       = (([OciReadable (OciLayoutPackage ''https://example.com/good.tar'')],
           Some (Errorf (''unable to fetch asset of type '' @ strconv_Quote (fetch_IsPrint ex_fetcher_deps) ''URILocator''
                           @ '': download failed''))),
          [FetchURIAssetsCall Background [''https://example.com/good.tar''],
           FetchURIAssetsCall Background [''https://example.com/bad.tar'']])"
proof -
  have pre: "\<forall>n\<in>set [''https://example.com/good.tar''].
               \<exists>assets call. fetch_one ex_fetcher_deps ex_fetcher ex_config n = Some (assets, None, call)"
    using ex_fetch_one(1) by simp
  have s: "LocatorType_String ex_fetcher_deps URILocator = ''URILocator''"
    by (simp add: ex_fetcher_deps_def)
  from fetch_assets_failure [OF ex_configured pre ex_fetch_one(2),
         of "[''https://example.com/later.tar'']"]
  have "FetchAssets ex_fetcher_deps ex_fetcher
        ([''https://example.com/good.tar''] @ ''https://example.com/bad.tar''
           # [''https://example.com/later.tar'']) []
       = (([OciReadable (OciLayoutPackage ''https://example.com/good.tar'')],
           Some (Errorf (''unable to fetch asset of type '' @ strconv_Quote (fetch_IsPrint ex_fetcher_deps) ''URILocator''
                           @ '': download failed''))),
          [FetchURIAssetsCall Background [''https://example.com/good.tar''],
           FetchURIAssetsCall Background [''https://example.com/bad.tar'']])"
    by (simp add: ex_fetch_one s)
  with ex_configured ex_fetch_one(1,2) show ?thesis by blast
qed

theorem fetch_assets_failure_counterexample:
  "fst (FetchAssets ex_fetcher_deps ex_fetcher
          [''https://example.com/good.tar'', ''https://example.com/bad.tar'',
           ''https://example.com/later.tar''] [])
     = ([OciReadable (OciLayoutPackage ''https://example.com/good.tar'')],
        Some (Errorf (''unable to fetch asset of type '' @ strconv_Quote (fetch_IsPrint ex_fetcher_deps) ''URILocator''
                        @ '': download failed'')))
   \<and> [OciReadable (OciLayoutPackage ''https://example.com/good.tar'')] \<noteq> []"
  by (simp add: FetchAssets_def DefaultFetcherConfig_def fetch_by_locator_def ex_fetcher_deps_def
        ex_fetcher_def NewFetcher_def castOCIToReadable_def)

end
